theory Spec2Isabelle
  imports Complex_Main "HOL-Library.Sublist"
begin

section \<open>JavaScript strings, numbers and JSON values\<close>

text \<open>
  The submission forms are TypeScript; the parts of the language their \<open>onSubmit\<close>
  handlers rely on are embedded first.  A \<open>string\<close> is a list of characters, and the
  character numbered \<open>n\<close> stands for the code unit \<open>n\<close> (0 to 255).
  \<open>String.prototype.trim\<close> strips white space and line terminators at both ends; in
  that range these are tab, line feed, vertical tab, form feed, carriage return, space and
  the no-break space U+00A0 (the other members of the class lie beyond 255).
\<close>

definition isWhiteSpace :: "char \<Rightarrow> bool" where
  "isWhiteSpace c \<longleftrightarrow> (of_char c :: nat) \<in> {9, 10, 11, 12, 13, 32, 160}"

definition trim :: "string \<Rightarrow> string" where
  "trim s = rev (dropWhile isWhiteSpace (rev (dropWhile isWhiteSpace s)))"

text \<open>
  A JavaScript number is \<open>NaN\<close>, an infinity (\<open>Infinity True\<close> is the positive one) or
  a finite double, kept as the rational it denotes (the sign of zero is not kept; it shows
  neither in truthiness nor in JSON).
\<close>

datatype jsnumber = NaN | Finite rat | Infinity bool

text \<open>
  The double nearest to a rational, ties to even: 53 significant bits, exponents from
  \<open>-1022\<close> (below which the spacing stays \<open>2 ^ -1074\<close>) to 1023, and infinity from
  \<open>2 ^ 1024\<close> on after rounding.
\<close>

function bitLength :: "int \<Rightarrow> int" where
  "bitLength n = (if n \<le> 0 then 0 else 1 + bitLength (n div 2))"
  by pat_completeness auto
termination
  by (relation "measure nat") auto

declare bitLength.simps [simp del]

definition pow2 :: "int \<Rightarrow> rat" where
  "pow2 e = (if 0 \<le> e then 2 ^ nat e else 1 / 2 ^ nat (- e))"

text \<open>The exponent \<open>e\<close> with \<open>2 ^ e \<le> a < 2 ^ (e + 1)\<close>, for a positive \<open>a\<close>.\<close>

definition floorLog2 :: "rat \<Rightarrow> int" where
  "floorLog2 a =
     (let (p, d) = quotient_of a;
          e = bitLength p - bitLength d
      in if pow2 e \<le> a then e else e - 1)"

definition roundHalfEven :: "rat \<Rightarrow> int" where
  "roundHalfEven m =
     (let f = \<lfloor>m\<rfloor>; r = m - of_int f
      in if r < 1 / 2 then f else if 1 / 2 < r then f + 1 else if even f then f else f + 1)"

definition toDouble :: "rat \<Rightarrow> jsnumber" where
  "toDouble q =
     (if q = 0 then Finite 0
      else
        let a = \<bar>q\<bar>;
            e = max (floorLog2 a) (- 1022);
            ulp = pow2 (e - 52);
            v = of_int (roundHalfEven (a / ulp)) * ulp
        in if pow2 1024 \<le> v then Infinity (0 < q)
           else Finite (if 0 < q then v else - v))"

definition digitOf :: "char \<Rightarrow> int option" where
  "digitOf c =
     (let n = (of_char c :: int) in
      if 48 \<le> n \<and> n \<le> 57 then Some (n - 48)
      else if 97 \<le> n \<and> n \<le> 102 then Some (n - 87)
      else if 65 \<le> n \<and> n \<le> 70 then Some (n - 55)
      else None)"

definition isDigitOf :: "int \<Rightarrow> char \<Rightarrow> bool" where
  "isDigitOf b c = (case digitOf c of None \<Rightarrow> False | Some d \<Rightarrow> d < b)"

definition digitsValue :: "int \<Rightarrow> string \<Rightarrow> int" where
  "digitsValue b ds = foldl (\<lambda>a c. b * a + (case digitOf c of None \<Rightarrow> 0 | Some d \<Rightarrow> d)) 0 ds"

text \<open>\<open>0x\<close>, \<open>0o\<close> and \<open>0b\<close> literals (either case of the letter), unsigned.\<close>

definition nonDecimalLiteral :: "string \<Rightarrow> int option" where
  "nonDecimalLiteral s =
     (case s of
        c0 # c1 # ds \<Rightarrow>
          (let b = (if c1 = CHR ''x'' \<or> c1 = CHR ''X'' then 16
                    else if c1 = CHR ''o'' \<or> c1 = CHR ''O'' then 8
                    else if c1 = CHR ''b'' \<or> c1 = CHR ''B'' then 2
                    else (0::int))
           in if c0 = CHR ''0'' \<and> b \<noteq> 0 \<and> ds \<noteq> [] \<and> list_all (isDigitOf b) ds
              then Some (digitsValue b ds) else None)
      | _ \<Rightarrow> None)"

definition stripSign :: "string \<Rightarrow> int \<times> string" where
  "stripSign s =
     (case s of
        [] \<Rightarrow> (1, [])
      | c # t \<Rightarrow> if c = CHR ''+'' then (1, t) else if c = CHR ''-'' then (- 1, t) else (1, s))"

definition exponentPart :: "string \<Rightarrow> int option" where
  "exponentPart s =
     (case s of
        [] \<Rightarrow> Some 0
      | c # r \<Rightarrow>
          if c = CHR ''e'' \<or> c = CHR ''E'' then
            (let (sg, ds) = stripSign r
             in if ds \<noteq> [] \<and> list_all (isDigitOf 10) ds
                then Some (sg * digitsValue 10 ds) else None)
          else None)"

definition scale10 :: "rat \<Rightarrow> int \<Rightarrow> rat" where
  "scale10 m e = (if 0 \<le> e then m * 10 ^ nat e else m / 10 ^ nat (- e))"

definition unsignedDecimal :: "string \<Rightarrow> jsnumber" where
  "unsignedDecimal s =
     (if s = ''Infinity'' then Infinity True
      else
        let ip = takeWhile (isDigitOf 10) s;
            r1 = dropWhile (isDigitOf 10) s;
            dot = (r1 \<noteq> [] \<and> hd r1 = CHR ''.'');
            fp = (if dot then takeWhile (isDigitOf 10) (tl r1) else []);
            r2 = (if dot then dropWhile (isDigitOf 10) (tl r1) else r1)
        in if ip = [] \<and> fp = [] then NaN
           else (case exponentPart r2 of
                   None \<Rightarrow> NaN
                 | Some e \<Rightarrow>
                     toDouble (scale10 (of_int (digitsValue 10 (ip @ fp))) (e - int (length fp)))))"

definition applySign :: "int \<Rightarrow> jsnumber \<Rightarrow> jsnumber" where
  "applySign sg x =
     (case x of
        NaN \<Rightarrow> NaN
      | Finite q \<Rightarrow> Finite (of_int sg * q)
      | Infinity p \<Rightarrow> Infinity (if sg < 0 then \<not> p else p))"

text \<open>
  \<open>Number(s)\<close> on a string: white space is stripped at both ends; what is left is
  \<open>0\<close> when empty, the double nearest to the value of a numeric literal when it is one,
  and \<open>NaN\<close> otherwise.
\<close>

definition Number :: "string \<Rightarrow> jsnumber" where
  "Number s =
     (let t = trim s in
      if t = [] then Finite 0
      else (case nonDecimalLiteral t of
              Some n \<Rightarrow> toDouble (of_int n)
            | None \<Rightarrow> (let (sg, u) = stripSign t in applySign sg (unsignedDecimal u))))"

definition isNaN :: "jsnumber \<Rightarrow> bool" where
  "isNaN x \<longleftrightarrow> x = NaN"

text \<open>
  JSON values: what \<open>response.json()\<close> yields and what a request body carries, with a
  number standing for the double it has been read as.
\<close>

datatype json =
    JNull
  | JBool bool
  | JNum rat
  | JStr string
  | JArr "json list"
  | JObj "(string \<times> json) list"

text \<open>
  Property values of the object literals the forms build: a string, a number or
  \<open>undefined\<close>; a payload property is such a value or an array of flat objects.
\<close>

datatype jsval = Undefined | Str string | Num jsnumber

type_synonym jsobject = "(string \<times> jsval) list"

datatype property = Scalar jsval | Objects "jsobject list"

type_synonym payload = "(string \<times> property) list"

text \<open>\<open>s || undefined\<close> on a string: the empty string is falsy.\<close>

definition or_undefined :: "string \<Rightarrow> jsval" where
  "or_undefined s = (if s = [] then Undefined else Str s)"

text \<open>\<open>isNaN(n) ? undefined : n\<close>.\<close>

definition unless_NaN :: "jsnumber \<Rightarrow> jsval" where
  "unless_NaN n = (if isNaN n then Undefined else Num n)"

text \<open>Property access on an object literal, and truthiness of the value read.\<close>

definition property_of :: "jsobject \<Rightarrow> string \<Rightarrow> jsval" where
  "property_of obj k = (case map_of obj k of None \<Rightarrow> Undefined | Some v \<Rightarrow> v)"

definition truthy_val :: "jsval \<Rightarrow> bool" where
  "truthy_val v =
     (case v of
        Undefined \<Rightarrow> False
      | Str s \<Rightarrow> s \<noteq> []
      | Num n \<Rightarrow> (case n of NaN \<Rightarrow> False | Finite q \<Rightarrow> q \<noteq> 0 | Infinity _ \<Rightarrow> True))"

text \<open>
  \<open>JSON.stringify\<close>, up to the JSON value it denotes: a property whose value is
  \<open>undefined\<close> is left out, a number that is not finite becomes \<open>null\<close>.
\<close>

definition stringify_val :: "jsval \<Rightarrow> json option" where
  "stringify_val v =
     (case v of
        Undefined \<Rightarrow> None
      | Str s \<Rightarrow> Some (JStr s)
      | Num n \<Rightarrow> (case n of Finite q \<Rightarrow> Some (JNum q) | _ \<Rightarrow> Some JNull))"

definition stringify_object :: "jsobject \<Rightarrow> json" where
  "stringify_object obj =
     JObj (List.map_filter (\<lambda>(k, v). map_option (Pair k) (stringify_val v)) obj)"

definition stringify_property :: "property \<Rightarrow> json option" where
  "stringify_property p =
     (case p of
        Scalar v \<Rightarrow> stringify_val v
      | Objects os \<Rightarrow> Some (JArr (map stringify_object os)))"

definition JSON_stringify :: "payload \<Rightarrow> json" where
  "JSON_stringify p =
     JObj (List.map_filter (\<lambda>(k, v). map_option (Pair k) (stringify_property v)) p)"

text \<open>
  \<open>data?.k\<close> on a parsed JSON value: the member of an object, \<open>undefined\<close> (here
  \<open>None\<close>) when the object has no such member or the value is not an object.
\<close>

definition member :: "json \<Rightarrow> string \<Rightarrow> json option" where
  "member j k = (case j of JObj kvs \<Rightarrow> map_of kvs k | _ \<Rightarrow> None)"

definition truthy :: "json \<Rightarrow> bool" where
  "truthy j =
     (case j of
        JNull \<Rightarrow> False
      | JBool b \<Rightarrow> b
      | JNum q \<Rightarrow> q \<noteq> 0
      | JStr s \<Rightarrow> s \<noteq> []
      | _ \<Rightarrow> True)"

text \<open>\<open>a || b\<close> where \<open>a\<close> may be \<open>undefined\<close>.\<close>

definition js_or :: "json option \<Rightarrow> json \<Rightarrow> json" where
  "js_or a b = (case a of None \<Rightarrow> b | Some v \<Rightarrow> if truthy v then v else b)"

fun join :: "string \<Rightarrow> string list \<Rightarrow> string" where
  "join sep [] = []"
| "join sep [x] = x"
| "join sep (x # y # ys) = x @ sep @ join sep (y # ys)"

text \<open>
  \<open>ToString\<close>, applied by \<open>new Error(message)\<close>.  How a number prints is the
  platform's business and is a parameter.
\<close>

fun ToString :: "(rat \<Rightarrow> string) \<Rightarrow> json \<Rightarrow> string" where
  "ToString nts JNull = ''null''"
| "ToString nts (JBool b) = (if b then ''true'' else ''false'')"
| "ToString nts (JNum q) = nts q"
| "ToString nts (JStr s) = s"
| "ToString nts (JArr xs) = join '','' (map (\<lambda>x. if x = JNull then [] else ToString nts x) xs)"
| "ToString nts (JObj kvs) = ''[object Object]''"

section \<open>The environment of a form\<close>

datatype variant = Default | Destructive

record toast =
  description :: string
  variant :: variant

text \<open>\<open>toast({ description })\<close> and \<open>toast({ description, variant: "destructive" })\<close>.\<close>

definition notice :: "string \<Rightarrow> toast" where
  "notice d = \<lparr>description = d, variant = Default\<rparr>"

definition destructive :: "string \<Rightarrow> toast" where
  "destructive d = \<lparr>description = d, variant = Destructive\<rparr>"

record request =
  url :: string
  http_method :: string
  headers :: "(string \<times> string) list"
  body :: json
  cache :: "string option"

text \<open>
  A response: its status and its body read as JSON (\<open>None\<close> when \<open>response.json()\<close>
  rejects).  \<open>fetch\<close> resolves with a response or rejects with a thrown value, which is an
  \<open>Error\<close> with a message or something else.
\<close>

record response =
  status :: nat
  json_body :: "json option"

datatype thrown = ErrorObject string | NonError

datatype fetch_result = Resolved response | Rejected thrown

record platform =
  fetch :: "request \<Rightarrow> fetch_result"
  numberToString :: "rat \<Rightarrow> string"

definition ok :: "response \<Rightarrow> bool" where
  "ok r \<longleftrightarrow> 200 \<le> response.status r \<and> response.status r \<le> 299"

text \<open>What a handler did to the outside: the requests it sent and the toasts it raised.\<close>

record effects =
  requests :: "request list"
  toasts :: "toast list"

record Department =
  uuid :: "string option"
  name :: "string option"
  shortName :: "string option"
  email :: "string option"

definition department_uuid :: "Department \<Rightarrow> jsval" where
  "department_uuid department = (case uuid department of None \<Rightarrow> Undefined | Some u \<Rightarrow> Str u)"

section \<open>The OTP session\<close>

text \<open>
  Modelled from the spec: the hook \<open>useSubmissionOtp\<close> (\<open>@/hooks/use-submission-otp\<close>)
  is not among the sources; the forms read \<open>status\<close>, \<open>sessionId\<close> and \<open>error\<close> of what
  it returns.  The session has a purpose, fixed when the controller is created, a status
  among idle, sending, sent, verifying, verified and error, a session identifier and an
  error message.
\<close>

datatype otp_status = Idle | Sending | Sent | Verifying | Verified | ErrorStatus

record otp_session =
  purpose :: string
  status :: otp_status
  sessionId :: "string option"
  error :: "string option"

text \<open>
  Modelled from the spec: \<open>reset()\<close> of the hook, which "unconditionally returns to idle,
  clearing sessionId and error".
\<close>

definition otp_reset :: "otp_session \<Rightarrow> otp_session" where
  "otp_reset s = s\<lparr>otp_session.status := Idle, sessionId := None, otp_session.error := None\<rparr>"

text \<open>Modelled from the spec: the session of a form that has just been mounted.\<close>

definition useSubmissionOtp :: "string \<Rightarrow> otp_session" where
  "useSubmissionOtp p =
     \<lparr>purpose = p, otp_session.status = Idle, sessionId = None, otp_session.error = None\<rparr>"

text \<open>\<open>!otp.sessionId\<close>: the identifier is missing or the empty string.\<close>

definition no_sessionId :: "otp_session \<Rightarrow> bool" where
  "no_sessionId s \<longleftrightarrow> (case sessionId s of None \<Rightarrow> True | Some sid \<Rightarrow> sid = [])"

text \<open>A session that passes the first guard of \<open>onSubmit\<close>.\<close>

definition verified :: "otp_session \<Rightarrow> bool" where
  "verified s \<longleftrightarrow> otp_session.status s = Verified \<and> \<not> no_sessionId s"

section \<open>The state of a form and the request it sends\<close>

text \<open>
  A form holds its draft (the values of the form library), the session, the code typed
  into the OTP input and the \<open>isSubmitting\<close> flag of the form library.  The draft is what
  \<open>onSubmit\<close> receives as \<open>values\<close>, and \<open>watch("submittedByEmail")\<close> is its
  \<open>submittedByEmail\<close>.  Three names of the source are reserved words here and are
  written differently: the \<open>values\<close> of a form are \<open>formValues\<close>, the field \<open>keywords\<close>
  of a draft is \<open>keywordsField\<close>, and the \<open>method\<close> of a request is \<open>http_method\<close>.
\<close>

record 'v form_state =
  formValues :: 'v
  otp :: otp_session
  otpCode :: string
  isSubmitting :: bool

text \<open>
  The \<open>try\<close> block that ends each \<open>onSubmit\<close>; the three forms differ in the strings
  only.  The request is sent; a response outside 200--299 throws an \<open>Error\<close> whose message
  is \<open>data?.detail || data?.error || fallback\<close>; the \<open>catch\<close> raises a destructive toast
  with the message of the \<open>Error\<close> caught.  On success the draft is reset to the default
  values, the session is reset and the code input is cleared.
\<close>

definition failure_message :: "(rat \<Rightarrow> string) \<Rightarrow> json \<Rightarrow> string \<Rightarrow> string" where
  "failure_message nts data fallback =
     ToString nts (js_or (member data ''detail'') (js_or (member data ''error'') (JStr fallback)))"

definition caught_message :: "thrown \<Rightarrow> string \<Rightarrow> string" where
  "caught_message e fallback = (case e of ErrorObject m \<Rightarrow> m | NonError \<Rightarrow> fallback)"

definition send :: "platform \<Rightarrow> request \<Rightarrow> string \<Rightarrow> string \<Rightarrow> 'v \<Rightarrow> 'v form_state
    \<Rightarrow> 'v form_state \<times> effects" where
  "send env req fallback success defaultValues st =
     (case fetch env req of
        Rejected e \<Rightarrow>
          (st, \<lparr>requests = [req],
                toasts = [destructive (caught_message e fallback)]\<rparr>)
      | Resolved r \<Rightarrow>
          (let data = (case json_body r of None \<Rightarrow> JObj [] | Some j \<Rightarrow> j) in
           if \<not> ok r then
             (st, \<lparr>requests = [req],
                   toasts = [destructive
                               (caught_message
                                  (ErrorObject (failure_message (numberToString env) data fallback))
                                  fallback)]\<rparr>)
           else
             (st\<lparr>formValues := defaultValues, otp := otp_reset (otp st), otpCode := []\<rparr>,
              \<lparr>requests = [req], toasts = [notice success]\<rparr>)))"

definition verify_first :: toast where
  "verify_first = destructive ''Verify your campus email before submitting''"

definition post :: "string \<Rightarrow> json \<Rightarrow> request" where
  "post u b =
     \<lparr>url = u, http_method = ''POST'', headers = [(''Content-Type'', ''application/json'')],
      body = b, cache = None\<rparr>"

section \<open>The journal form\<close>

record AuthorForm =
  givenName :: string
  familyName :: string
  email :: string
  affiliation :: string
  country :: string

record JournalFormValues =
  title :: string
  genre :: string
  abstract :: string
  keywordsField :: string
  discipline :: string
  year :: string
  volume :: string
  number :: string
  pages :: string
  submittedByName :: string
  submittedByEmail :: string
  authors :: "AuthorForm list"

definition journal_emptyAuthor :: AuthorForm where
  "journal_emptyAuthor =
     \<lparr>givenName = [], familyName = [], AuthorForm.email = [], affiliation = [], country = []\<rparr>"

definition journal_defaultValues :: JournalFormValues where
  "journal_defaultValues =
     \<lparr>JournalFormValues.title = [], genre = [], JournalFormValues.abstract = [],
      JournalFormValues.keywordsField = [], discipline = [], year = [], volume = [], number = [],
      pages = [], JournalFormValues.submittedByName = [],
      JournalFormValues.submittedByEmail = [], authors = [journal_emptyAuthor]\<rparr>"

definition journal_author :: "AuthorForm \<Rightarrow> jsobject" where
  "journal_author author =
     [(''given_name'', Str (trim (givenName author))),
      (''family_name'', or_undefined (trim (familyName author))),
      (''email'', or_undefined (trim (AuthorForm.email author))),
      (''affiliation'', or_undefined (trim (affiliation author))),
      (''country'', or_undefined (trim (country author)))]"

definition journal_authors :: "AuthorForm list \<Rightarrow> jsobject list" where
  "journal_authors as =
     filter (\<lambda>author. truthy_val (property_of author ''given_name'')) (map journal_author as)"

definition journal_payload ::
    "Department \<Rightarrow> otp_session \<Rightarrow> JournalFormValues \<Rightarrow> jsobject list \<Rightarrow> payload" where
  "journal_payload department o_s v as =
     (let year = Number (JournalFormValues.year v);
          volume = Number (JournalFormValues.volume v);
          number = Number (JournalFormValues.number v)
      in
      [(''title'', Scalar (Str (trim (JournalFormValues.title v)))),
       (''genre'', Scalar (Str (trim (genre v)))),
       (''abstract'', Scalar (Str (trim (JournalFormValues.abstract v)))),
       (''keywords'', Scalar (or_undefined (trim (JournalFormValues.keywordsField v)))),
       (''discipline'', Scalar (or_undefined (trim (discipline v)))),
       (''year'', Scalar (unless_NaN year)),
       (''volume'', Scalar (unless_NaN volume)),
       (''number'', Scalar (unless_NaN number)),
       (''pages'', Scalar (or_undefined (trim (pages v)))),
       (''submitted_by_name'', Scalar (Str (trim (JournalFormValues.submittedByName v)))),
       (''submitted_by_email'', Scalar (Str (trim (JournalFormValues.submittedByEmail v)))),
       (''department'', Scalar (department_uuid department)),
       (''authors'', Objects as),
       (''otp_session'', Scalar (case sessionId o_s of None \<Rightarrow> Undefined | Some sid \<Rightarrow> Str sid))])"

definition journal_request :: "Department \<Rightarrow> JournalFormValues form_state \<Rightarrow> request" where
  "journal_request department st =
     post ''/api/submissions/journal''
       (JSON_stringify
          (journal_payload department (otp st) (formValues st)
             (journal_authors (authors (formValues st)))))"

definition journal_onSubmit ::
    "platform \<Rightarrow> Department \<Rightarrow> JournalFormValues form_state
      \<Rightarrow> JournalFormValues form_state \<times> effects" where
  "journal_onSubmit env department st =
     (if otp_session.status (otp st) \<noteq> Verified \<or> no_sessionId (otp st) then
        (st, \<lparr>requests = [], toasts = [verify_first]\<rparr>)
      else
        let as = journal_authors (authors (formValues st)) in
        if length as = 0 then
          (st, \<lparr>requests = [],
                toasts = [destructive ''Add at least one author'']\<rparr>)
        else
          send env (journal_request department st)
            ''Failed to submit article'' ''Journal article submitted''
            journal_defaultValues st)"

section \<open>The project form\<close>

record ProjectMemberForm =
  fullName :: string
  rollNumber :: string
  email :: string
  role :: string

record ProjectFormValues =
  title :: string
  abstract :: string
  description :: string
  projectType :: string
  supervisorName :: string
  supervisorEmail :: string
  startDate :: string
  endDate :: string
  academicYear :: string
  githubUrl :: string
  demoUrl :: string
  technologiesUsed :: string
  submittedByName :: string
  submittedByEmail :: string
  members :: "ProjectMemberForm list"

definition project_emptyMember :: ProjectMemberForm where
  "project_emptyMember =
     \<lparr>ProjectMemberForm.fullName = [], rollNumber = [], ProjectMemberForm.email = [],
      ProjectMemberForm.role = ''Team Member''\<rparr>"

definition project_defaultValues :: ProjectFormValues where
  "project_defaultValues =
     \<lparr>ProjectFormValues.title = [], ProjectFormValues.abstract = [],
      ProjectFormValues.description = [], projectType = ''final_year'', supervisorName = [],
      supervisorEmail = [], ProjectFormValues.startDate = [], ProjectFormValues.endDate = [],
      academicYear = [], ProjectFormValues.githubUrl = [], demoUrl = [], technologiesUsed = [],
      ProjectFormValues.submittedByName = [], ProjectFormValues.submittedByEmail = [],
      members = [project_emptyMember]\<rparr>"

definition project_member :: "ProjectMemberForm \<Rightarrow> jsobject" where
  "project_member m =
     [(''full_name'', Str (trim (ProjectMemberForm.fullName m))),
      (''roll_number'', Str (trim (rollNumber m))),
      (''email'', or_undefined (trim (ProjectMemberForm.email m))),
      (''role'', or_undefined (trim (ProjectMemberForm.role m)))]"

definition project_members :: "ProjectMemberForm list \<Rightarrow> jsobject list" where
  "project_members ms =
     filter (\<lambda>m. truthy_val (property_of m ''full_name'')
                \<and> truthy_val (property_of m ''roll_number''))
       (map project_member ms)"

definition project_payload ::
    "Department \<Rightarrow> otp_session \<Rightarrow> ProjectFormValues \<Rightarrow> jsobject list \<Rightarrow> payload" where
  "project_payload department o_s v ms =
     [(''title'', Scalar (Str (trim (ProjectFormValues.title v)))),
      (''abstract'', Scalar (Str (trim (ProjectFormValues.abstract v)))),
      (''description'', Scalar (Str (trim (ProjectFormValues.description v)))),
      (''project_type'', Scalar (Str (projectType v))),
      (''supervisor_name'', Scalar (Str (trim (supervisorName v)))),
      (''supervisor_email'', Scalar (or_undefined (trim (supervisorEmail v)))),
      (''start_date'', Scalar (or_undefined (ProjectFormValues.startDate v))),
      (''end_date'', Scalar (or_undefined (ProjectFormValues.endDate v))),
      (''academic_year'', Scalar (or_undefined (trim (academicYear v)))),
      (''github_url'', Scalar (or_undefined (trim (ProjectFormValues.githubUrl v)))),
      (''demo_url'', Scalar (or_undefined (trim (demoUrl v)))),
      (''technologies_used'', Scalar (or_undefined (trim (technologiesUsed v)))),
      (''submitted_by_name'', Scalar (Str (trim (ProjectFormValues.submittedByName v)))),
      (''submitted_by_email'', Scalar (Str (trim (ProjectFormValues.submittedByEmail v)))),
      (''department'', Scalar (department_uuid department)),
      (''members'', Objects ms),
      (''otp_session'', Scalar (case sessionId o_s of None \<Rightarrow> Undefined | Some sid \<Rightarrow> Str sid))]"

definition project_request :: "Department \<Rightarrow> ProjectFormValues form_state \<Rightarrow> request" where
  "project_request department st =
     post ''/api/submissions/project''
       (JSON_stringify
          (project_payload department (otp st) (formValues st)
             (project_members (members (formValues st)))))"

definition project_onSubmit ::
    "platform \<Rightarrow> Department \<Rightarrow> ProjectFormValues form_state
      \<Rightarrow> ProjectFormValues form_state \<times> effects" where
  "project_onSubmit env department st =
     (if otp_session.status (otp st) \<noteq> Verified \<or> no_sessionId (otp st) then
        (st, \<lparr>requests = [], toasts = [verify_first]\<rparr>)
      else
        let ms = project_members (members (formValues st)) in
        if length ms = 0 then
          (st, \<lparr>requests = [],
                toasts = [destructive ''Add at least one team member'']\<rparr>)
        else
          send env (project_request department st)
            ''Failed to submit project'' ''Project submitted for review''
            project_defaultValues st)"

section \<open>The research form\<close>

record ParticipantForm =
  fullName :: string
  participantType :: string
  email :: string
  role :: string

record ResearchFormValues =
  title :: string
  abstract :: string
  description :: string
  researchType :: string
  status :: string
  principalInvestigator :: string
  piEmail :: string
  startDate :: string
  endDate :: string
  fundingAgency :: string
  fundingAmount :: string
  keywordsField :: string
  methodology :: string
  expectedOutcomes :: string
  publicationsUrl :: string
  projectUrl :: string
  githubUrl :: string
  submittedByName :: string
  submittedByEmail :: string
  participants :: "ParticipantForm list"

definition research_emptyParticipant :: ParticipantForm where
  "research_emptyParticipant =
     \<lparr>ParticipantForm.fullName = [], participantType = ''student'', ParticipantForm.email = [],
      ParticipantForm.role = ''Researcher''\<rparr>"

definition research_defaultValues :: ResearchFormValues where
  "research_defaultValues =
     \<lparr>ResearchFormValues.title = [], ResearchFormValues.abstract = [],
      ResearchFormValues.description = [], researchType = ''applied'',
      ResearchFormValues.status = ''proposed'', principalInvestigator = [], piEmail = [],
      ResearchFormValues.startDate = [], ResearchFormValues.endDate = [], fundingAgency = [],
      fundingAmount = [], ResearchFormValues.keywordsField = [], methodology = [],
      expectedOutcomes = [], publicationsUrl = [], projectUrl = [],
      ResearchFormValues.githubUrl = [], ResearchFormValues.submittedByName = [],
      ResearchFormValues.submittedByEmail = [], participants = [research_emptyParticipant]\<rparr>"

definition research_participant :: "Department \<Rightarrow> ParticipantForm \<Rightarrow> jsobject" where
  "research_participant department participant =
     [(''full_name'', Str (trim (ParticipantForm.fullName participant))),
      (''participant_type'', Str (participantType participant)),
      (''email'', or_undefined (trim (ParticipantForm.email participant))),
      (''role'', or_undefined (trim (ParticipantForm.role participant))),
      (''department'', department_uuid department)]"

definition research_participants :: "Department \<Rightarrow> ParticipantForm list \<Rightarrow> jsobject list" where
  "research_participants department ps =
     filter (\<lambda>participant. truthy_val (property_of participant ''full_name''))
       (map (research_participant department) ps)"

definition research_payload ::
    "Department \<Rightarrow> otp_session \<Rightarrow> ResearchFormValues \<Rightarrow> jsobject list \<Rightarrow> payload" where
  "research_payload department o_s v ps =
     (let funding = Number (fundingAmount v) in
      [(''title'', Scalar (Str (trim (ResearchFormValues.title v)))),
       (''abstract'', Scalar (Str (trim (ResearchFormValues.abstract v)))),
       (''description'', Scalar (Str (trim (ResearchFormValues.description v)))),
       (''research_type'', Scalar (Str (researchType v))),
       (''status'', Scalar (Str (ResearchFormValues.status v))),
       (''principal_investigator'', Scalar (Str (trim (principalInvestigator v)))),
       (''pi_email'', Scalar (Str (trim (piEmail v)))),
       (''start_date'', Scalar (or_undefined (ResearchFormValues.startDate v))),
       (''end_date'', Scalar (or_undefined (ResearchFormValues.endDate v))),
       (''funding_agency'', Scalar (or_undefined (trim (fundingAgency v)))),
       (''funding_amount'', Scalar (unless_NaN funding)),
       (''keywords'', Scalar (or_undefined (trim (ResearchFormValues.keywordsField v)))),
       (''methodology'', Scalar (or_undefined (trim (methodology v)))),
       (''expected_outcomes'', Scalar (or_undefined (trim (expectedOutcomes v)))),
       (''publications_url'', Scalar (or_undefined (trim (publicationsUrl v)))),
       (''project_url'', Scalar (or_undefined (trim (projectUrl v)))),
       (''github_url'', Scalar (or_undefined (trim (ResearchFormValues.githubUrl v)))),
       (''submitted_by_name'', Scalar (Str (trim (ResearchFormValues.submittedByName v)))),
       (''submitted_by_email'', Scalar (Str (trim (ResearchFormValues.submittedByEmail v)))),
       (''department'', Scalar (department_uuid department)),
       (''participants'', Objects ps),
       (''otp_session'', Scalar (case sessionId o_s of None \<Rightarrow> Undefined | Some sid \<Rightarrow> Str sid))])"

definition research_request :: "Department \<Rightarrow> ResearchFormValues form_state \<Rightarrow> request" where
  "research_request department st =
     post ''/api/submissions/research''
       (JSON_stringify
          (research_payload department (otp st) (formValues st)
             (research_participants department (participants (formValues st)))))"

text \<open>The research form filters its participants and sends whatever is left.\<close>

definition research_onSubmit ::
    "platform \<Rightarrow> Department \<Rightarrow> ResearchFormValues form_state
      \<Rightarrow> ResearchFormValues form_state \<times> effects" where
  "research_onSubmit env department st =
     (if otp_session.status (otp st) \<noteq> Verified \<or> no_sessionId (otp st) then
        (st, \<lparr>requests = [], toasts = [verify_first]\<rparr>)
      else
        send env (research_request department st)
          ''Failed to submit research'' ''Research submitted for departmental review''
          research_defaultValues st)"

section \<open>Submitting through the form library\<close>

text \<open>
  The forms hand \<open>onSubmit\<close> to \<open>handleSubmit\<close> of the form library, which checks the
  \<open>required\<close> rules given at \<open>register\<close> (a rule fails on the empty string) and calls
  \<open>onSubmit\<close> only when all of them pass; \<open>isSubmitting\<close> is true while it runs and false
  when it has returned.  Each form lists the fields it registers with a \<open>required\<close> rule.
\<close>

definition journal_required :: "JournalFormValues \<Rightarrow> (string \<times> string) list" where
  "journal_required v =
     [(''title'', JournalFormValues.title v), (''genre'', genre v),
      (''abstract'', JournalFormValues.abstract v)]
     @ map (\<lambda>a. (''authors.givenName'', givenName a)) (authors v)
     @ [(''submittedByName'', JournalFormValues.submittedByName v),
        (''submittedByEmail'', JournalFormValues.submittedByEmail v)]"

definition project_required :: "ProjectFormValues \<Rightarrow> (string \<times> string) list" where
  "project_required v =
     [(''title'', ProjectFormValues.title v), (''supervisorName'', supervisorName v)]
     @ (case members v of
          [] \<Rightarrow> []
        | m # _ \<Rightarrow> [(''members.0.fullName'', ProjectMemberForm.fullName m),
                     (''members.0.rollNumber'', rollNumber m)])
     @ [(''submittedByName'', ProjectFormValues.submittedByName v),
        (''submittedByEmail'', ProjectFormValues.submittedByEmail v)]"

definition research_required :: "ResearchFormValues \<Rightarrow> (string \<times> string) list" where
  "research_required v =
     [(''title'', ResearchFormValues.title v),
      (''principalInvestigator'', principalInvestigator v), (''piEmail'', piEmail v),
      (''submittedByName'', ResearchFormValues.submittedByName v),
      (''submittedByEmail'', ResearchFormValues.submittedByEmail v)]"

definition handleSubmit ::
    "('v \<Rightarrow> (string \<times> string) list) \<Rightarrow> ('v form_state \<Rightarrow> 'v form_state \<times> effects)
      \<Rightarrow> 'v form_state \<Rightarrow> 'v form_state \<times> effects" where
  "handleSubmit required onSubmit st =
     (if list_all (\<lambda>(field, val). val \<noteq> []) (required (formValues st)) then
        (let (st', eff) = onSubmit (st\<lparr>isSubmitting := True\<rparr>)
         in (st'\<lparr>isSubmitting := False\<rparr>, eff))
      else (st\<lparr>isSubmitting := False\<rparr>, \<lparr>requests = [], toasts = []\<rparr>))"

section \<open>The effect that watches the submitter's email\<close>

text \<open>
  \<open>useEffect(() => { otp.reset(); setOtpCode(""); }, [submittedEmail, otp])\<close>: the effect
  runs when the watched value of \<open>submittedByEmail\<close> has changed.
\<close>

definition email_effect :: "'v form_state \<Rightarrow> 'v form_state" where
  "email_effect st = st\<lparr>otp := otp_reset (otp st), otpCode := []\<rparr>"

definition change_email ::
    "('v \<Rightarrow> string) \<Rightarrow> (string \<Rightarrow> 'v \<Rightarrow> 'v) \<Rightarrow> string \<Rightarrow> 'v form_state \<Rightarrow> 'v form_state" where
  "change_email watch setValue e st =
     (let st' = st\<lparr>formValues := setValue e (formValues st)\<rparr>
      in if watch (formValues st') \<noteq> watch (formValues st) then email_effect st' else st')"

definition journal_change_email ::
    "string \<Rightarrow> JournalFormValues form_state \<Rightarrow> JournalFormValues form_state" where
  "journal_change_email =
     change_email JournalFormValues.submittedByEmail
       (\<lambda>e v. v\<lparr>JournalFormValues.submittedByEmail := e\<rparr>)"

definition project_change_email ::
    "string \<Rightarrow> ProjectFormValues form_state \<Rightarrow> ProjectFormValues form_state" where
  "project_change_email =
     change_email ProjectFormValues.submittedByEmail
       (\<lambda>e v. v\<lparr>ProjectFormValues.submittedByEmail := e\<rparr>)"

definition research_change_email ::
    "string \<Rightarrow> ResearchFormValues form_state \<Rightarrow> ResearchFormValues form_state" where
  "research_change_email =
     change_email ResearchFormValues.submittedByEmail
       (\<lambda>e v. v\<lparr>ResearchFormValues.submittedByEmail := e\<rparr>)"

section \<open>The list of authors, members or participants\<close>

text \<open>
  \<open>useFieldArray\<close> gives \<open>append\<close>, which adds a row at the end, and \<open>remove(index)\<close>,
  which splices the row at \<open>index\<close> out (and nothing when there is no such row).  The forms
  show "Add" always, and a "Remove" button on each row only while
  \<open>fields.length > 1\<close>; a click that finds no button changes nothing.
\<close>

definition fieldArray_append :: "'a \<Rightarrow> 'a list \<Rightarrow> 'a list" where
  "fieldArray_append row rows = rows @ [row]"

definition fieldArray_remove :: "nat \<Rightarrow> 'a list \<Rightarrow> 'a list" where
  "fieldArray_remove index rows = take index rows @ drop (Suc index) rows"

datatype click = Add | RemoveRow nat

definition on_click :: "'a \<Rightarrow> click \<Rightarrow> 'a list \<Rightarrow> 'a list" where
  "on_click template c rows =
     (case c of
        Add \<Rightarrow> fieldArray_append template rows
      | RemoveRow index \<Rightarrow>
          if length rows > 1 \<and> index < length rows then fieldArray_remove index rows
          else rows)"

fun clicks :: "'a \<Rightarrow> click list \<Rightarrow> 'a list \<Rightarrow> 'a list" where
  "clicks template [] rows = rows"
| "clicks template (c # cs) rows = clicks template cs (on_click template c rows)"

section \<open>The section that mounts the forms\<close>

datatype mounted =
    ProjectSubmissionForm Department
  | ResearchSubmissionForm Department
  | JournalSubmissionForm Department

text \<open>
  \<open>if (!department?.uuid) return null\<close>; otherwise the section shows one tab for each form
  and passes the department on to each of them.
\<close>

definition DepartmentSubmissionSection :: "Department option \<Rightarrow> mounted list option" where
  "DepartmentSubmissionSection department =
     (case department of
        None \<Rightarrow> None
      | Some d \<Rightarrow>
          (case uuid d of
             None \<Rightarrow> None
           | Some u \<Rightarrow>
               if u = [] then None
               else Some [ProjectSubmissionForm d, ResearchSubmissionForm d,
                          JournalSubmissionForm d]))"

text \<open>The request a mounted form sends for a draft that passes its guards.\<close>

definition request_of :: "mounted \<Rightarrow> ProjectFormValues form_state
    \<Rightarrow> ResearchFormValues form_state \<Rightarrow> JournalFormValues form_state \<Rightarrow> request" where
  "request_of f ps rs js =
     (case f of
        ProjectSubmissionForm d \<Rightarrow> project_request d ps
      | ResearchSubmissionForm d \<Rightarrow> research_request d rs
      | JournalSubmissionForm d \<Rightarrow> journal_request d js)"

definition department_of :: "mounted \<Rightarrow> Department" where
  "department_of f =
     (case f of
        ProjectSubmissionForm d \<Rightarrow> d
      | ResearchSubmissionForm d \<Rightarrow> d
      | JournalSubmissionForm d \<Rightarrow> d)"

section \<open>The proxy routes\<close>

text \<open>
  The two route handlers differ in the suffix of the upstream path and in the message of
  the 500 response.  \<open>API_BASE\<close> comes from the configuration and falls back to a default
  when it is missing or empty.
\<close>

record route =
  suffix :: string
  unable :: string

definition journal_route :: route where
  "journal_route =
     \<lparr>suffix = ''/api/v1/public/journal-mod/articles/submit/'',
      unable = ''Unable to submit journal article''\<rparr>"

definition research_route :: route where
  "research_route =
     \<lparr>suffix = ''/api/v1/public/research-mod/research/submit/'',
      unable = ''Unable to submit research''\<rparr>"

record server =
  API_BASE :: "string option"
  upstream :: "request \<Rightarrow> fetch_result"

definition API_BASE_URL :: "server \<Rightarrow> string" where
  "API_BASE_URL env =
     (case API_BASE env of
        None \<Rightarrow> ''https://cdn.tcioe.edu.np''
      | Some b \<Rightarrow> if b = [] then ''https://cdn.tcioe.edu.np'' else b)"

text \<open>
  \<open>NextResponse.json(data, { status })\<close> goes through the initialisation of a
  \<open>Response\<close> of the Fetch standard, which throws for a status outside 200--599 and for a
  body given with a null-body status (204, 205, 304; 101 and 103 are out of the range
  already).  \<open>None\<close> is the throw.
\<close>

definition NextResponse_json :: "json \<Rightarrow> nat \<Rightarrow> response option" where
  "NextResponse_json data s =
     (if 200 \<le> s \<and> s \<le> 599 \<and> s \<noteq> 204 \<and> s \<noteq> 205 \<and> s \<noteq> 304
      then Some \<lparr>response.status = s, json_body = Some data\<rparr>
      else None)"

definition unable_response :: "route \<Rightarrow> response" where
  "unable_response rt =
     \<lparr>response.status = 500, json_body = Some (JObj [(''error'', JStr (unable rt))])\<rparr>"

definition forwarded :: "route \<Rightarrow> server \<Rightarrow> json \<Rightarrow> request" where
  "forwarded rt env payload =
     \<lparr>url = API_BASE_URL env @ suffix rt, http_method = ''POST'',
      headers = [(''Content-Type'', ''application/json''), (''Accept'', ''application/json'')],
      body = payload, cache = Some ''no-store''\<rparr>"

text \<open>
  \<open>POST\<close>: the body of the incoming request read as JSON (\<open>None\<close> when
  \<open>request.json()\<close> throws), one upstream call, and the response built from the upstream's
  status and body.  Whatever is thrown inside the \<open>try\<close> ends in the 500 response.  The
  result is the response given to the caller and the upstream requests made.
\<close>

definition POST :: "route \<Rightarrow> server \<Rightarrow> json option \<Rightarrow> response \<times> request list" where
  "POST rt env request_json =
     (case request_json of
        None \<Rightarrow> (unable_response rt, [])
      | Some payload \<Rightarrow>
          (let req = forwarded rt env payload in
           case upstream env req of
             Rejected e \<Rightarrow> (unable_response rt, [req])
           | Resolved r \<Rightarrow>
               (let data = (case json_body r of None \<Rightarrow> JObj [] | Some j \<Rightarrow> j) in
                case NextResponse_json data (response.status r) of
                  None \<Rightarrow> (unable_response rt, [req])
                | Some out \<Rightarrow> (out, [req]))))"

section \<open>Concrete inputs\<close>

text \<open>A department, sessions, drafts and gateways on which the results below are run.\<close>

definition tcioe_department :: Department where
  "tcioe_department =
     \<lparr>uuid = Some ''dept-1'', name = Some ''Electronics and Computer Engineering'',
      shortName = Some ''DoECE'', Department.email = None\<rparr>"

definition verified_session :: "string \<Rightarrow> otp_session" where
  "verified_session p =
     \<lparr>purpose = p, otp_session.status = Verified, sessionId = Some ''sess-1'',
      otp_session.error = None\<rparr>"

definition mounted_with :: "otp_session \<Rightarrow> 'v \<Rightarrow> 'v form_state" where
  "mounted_with s v = \<lparr>formValues = v, otp = s, otpCode = ''482913'', isSubmitting = False\<rparr>"

definition answering :: "nat \<Rightarrow> json option \<Rightarrow> platform" where
  "answering s b =
     \<lparr>fetch = (\<lambda>req. Resolved \<lparr>response.status = s, json_body = b\<rparr>),
      numberToString = (\<lambda>q. ''0'')\<rparr>"

definition offline :: platform where
  "offline = \<lparr>fetch = (\<lambda>req. Rejected (ErrorObject ''Failed to fetch'')),
              numberToString = (\<lambda>q. ''0'')\<rparr>"

definition edge_ai :: JournalFormValues where
  "edge_ai =
     journal_defaultValues
       \<lparr>JournalFormValues.title := ''Edge AI'', genre := ''Original Article'',
        JournalFormValues.abstract := ''Inference at the edge.'',
        authors := [journal_emptyAuthor\<lparr>givenName := ''Ram''\<rparr>]\<rparr>"

definition edge_ai_signed :: JournalFormValues where
  "edge_ai_signed =
     edge_ai\<lparr>JournalFormValues.submittedByName := ''Sita Sharma'',
             JournalFormValues.submittedByEmail := ''sita@tcioe.edu.np''\<rparr>"

definition smart_meter :: ProjectFormValues where
  "smart_meter =
     project_defaultValues
       \<lparr>ProjectFormValues.title := ''Smart Meter'', supervisorName := ''Dr. Thapa'',
        ProjectFormValues.submittedByName := ''Hari Karki'',
        ProjectFormValues.submittedByEmail := ''hari@tcioe.edu.np'',
        members := [\<lparr>ProjectMemberForm.fullName = ''Hari Karki'', rollNumber = ''THA077BEI014'',
                     ProjectMemberForm.email = [], ProjectMemberForm.role = []\<rparr>]\<rparr>"

definition soil_study :: ResearchFormValues where
  "soil_study =
     research_defaultValues
       \<lparr>ResearchFormValues.title := ''Soil Study'', principalInvestigator := ''Dr. Rai'',
        piEmail := ''rai@tcioe.edu.np'', fundingAmount := ''abc'',
        ResearchFormValues.submittedByName := ''Gita Rai'',
        ResearchFormValues.submittedByEmail := ''gita@tcioe.edu.np''\<rparr>"

text \<open>The three forms as mounted, before and after the email has been verified.\<close>

definition journal_fresh :: "JournalFormValues form_state" where
  "journal_fresh = mounted_with (useSubmissionOtp ''journal_submission'') edge_ai_signed"

definition project_fresh :: "ProjectFormValues form_state" where
  "project_fresh = mounted_with (useSubmissionOtp ''project_submission'') smart_meter"

definition research_fresh :: "ResearchFormValues form_state" where
  "research_fresh = mounted_with (useSubmissionOtp ''research_submission'') soil_study"

definition journal_ready :: "JournalFormValues form_state" where
  "journal_ready = mounted_with (verified_session ''journal_submission'') edge_ai_signed"

definition project_ready :: "ProjectFormValues form_state" where
  "project_ready = mounted_with (verified_session ''project_submission'') smart_meter"

definition research_ready :: "ResearchFormValues form_state" where
  "research_ready = mounted_with (verified_session ''research_submission'') soil_study"


text \<open>A key is absent from a JSON object.\<close>

definition absent :: "string \<Rightarrow> json \<Rightarrow> bool" where
  "absent k j \<longleftrightarrow> member j k = None"

text \<open>
  Drafts in which no author, or no member, keeps a name after trimming: the given name is
  a no-break space followed by a space, the roll number is a space.
\<close>

definition journal_nameless :: "JournalFormValues form_state" where
  "journal_nameless =
     mounted_with (verified_session ''journal_submission'')
       (edge_ai_signed\<lparr>authors := [journal_emptyAuthor\<lparr>givenName := CHR 0xA0 # '' ''\<rparr>]\<rparr>)"

definition project_nameless :: "ProjectFormValues form_state" where
  "project_nameless =
     mounted_with (verified_session ''project_submission'')
       (smart_meter
          \<lparr>members := [project_emptyMember\<lparr>ProjectMemberForm.fullName := ''Hari Karki'',
                                            rollNumber := '' ''\<rparr>]\<rparr>)"

definition ram :: AuthorForm where
  "ram = journal_emptyAuthor\<lparr>givenName := ''Ram''\<rparr>"

text \<open>An upstream answer, and proxies whose upstream answers or is down.\<close>

definition duplicate_title :: json where
  "duplicate_title = JObj [(''detail'', JStr ''Duplicate title'')]"

definition upstream_answering :: "nat \<Rightarrow> json option \<Rightarrow> server" where
  "upstream_answering s b =
     \<lparr>API_BASE = None, upstream = (\<lambda>req. Resolved \<lparr>response.status = s, json_body = b\<rparr>)\<rparr>"

definition upstream_no_content :: server where
  "upstream_no_content =
     \<lparr>API_BASE = Some ''http://localhost:8000'',
      upstream = (\<lambda>req. Resolved \<lparr>response.status = 204, json_body = None\<rparr>)\<rparr>"

definition upstream_down :: server where
  "upstream_down =
     \<lparr>API_BASE = Some ''http://localhost:8000'',
      upstream = (\<lambda>req. Rejected (ErrorObject ''fetch failed''))\<rparr>"

section \<open>Auxiliary facts\<close>

lemma map_of_map_filter:
  "distinct (map fst p) \<Longrightarrow>
   map_of (List.map_filter (\<lambda>(k, v). map_option (Pair k) (f v)) p) k
     = Option.bind (map_of p k) f"
proof (induction p)
  case Nil
  then show ?case by simp
next
  case (Cons a p)
  obtain k' v' where a: "a = (k', v')" by (cases a)
  have fresh: "k' \<notin> fst ` set p" using Cons.prems a by simp
  have IH: "map_of (List.map_filter (\<lambda>(k, v). map_option (Pair k) (f v)) p) k
              = Option.bind (map_of p k) f"
    using Cons by simp
  show ?case
  proof (cases "k = k'")
    case True
    then have "map_of p k = None" using fresh by (simp add: map_of_eq_None_iff)
    then show ?thesis using True a IH by (cases "f v'") simp_all
  next
    case False
    then show ?thesis using a IH by (cases "f v'") simp_all
  qed
qed

lemma member_JSON_stringify:
  "distinct (map fst p) \<Longrightarrow>
   member (JSON_stringify p) k = Option.bind (map_of p k) stringify_property"
  by (simp add: member_def JSON_stringify_def map_of_map_filter)

lemma member_stringify_object:
  "distinct (map fst obj) \<Longrightarrow>
   member (stringify_object obj) k = Option.bind (map_of obj k) stringify_val"
  by (simp add: member_def stringify_object_def map_of_map_filter)

lemmas absent_simps =
  absent_def post_def member_JSON_stringify member_stringify_object Let_def
  or_undefined_def unless_NaN_def isNaN_def stringify_property_def stringify_val_def

lemma handleSubmit_valid:
  "list_all (\<lambda>(field, val). val \<noteq> []) (required (formValues st)) \<Longrightarrow>
   handleSubmit required onSubmit st
     = (fst (onSubmit (st\<lparr>isSubmitting := True\<rparr>))\<lparr>isSubmitting := False\<rparr>,
        snd (onSubmit (st\<lparr>isSubmitting := True\<rparr>)))"
  by (simp add: handleSubmit_def case_prod_unfold Let_def)

lemma requests_send: "requests (snd (send env req fallback success dv st)) = [req]"
  by (simp add: send_def Let_def split: fetch_result.splits)

lemma journal_request_isSubmitting:
  "journal_request d (st\<lparr>isSubmitting := b\<rparr>) = journal_request d st"
  by (simp add: journal_request_def)

lemma project_request_isSubmitting:
  "project_request d (st\<lparr>isSubmitting := b\<rparr>) = project_request d st"
  by (simp add: project_request_def)

lemma research_request_isSubmitting:
  "research_request d (st\<lparr>isSubmitting := b\<rparr>) = research_request d st"
  by (simp add: research_request_def)

lemma verified_session_verified: "verified (verified_session p)"
  by (simp add: verified_def verified_session_def no_sessionId_def)

lemma journal_onSubmit_send:
  "verified (otp st) \<Longrightarrow> journal_authors (authors (formValues st)) \<noteq> [] \<Longrightarrow>
   journal_onSubmit env d st
     = send env (journal_request d st) ''Failed to submit article''
         ''Journal article submitted'' journal_defaultValues st"
  by (simp add: journal_onSubmit_def verified_def Let_def)

lemma project_onSubmit_send:
  "verified (otp st) \<Longrightarrow> project_members (members (formValues st)) \<noteq> [] \<Longrightarrow>
   project_onSubmit env d st
     = send env (project_request d st) ''Failed to submit project''
         ''Project submitted for review'' project_defaultValues st"
  by (simp add: project_onSubmit_def verified_def Let_def)

lemma research_onSubmit_send:
  "verified (otp st) \<Longrightarrow>
   research_onSubmit env d st
     = send env (research_request d st) ''Failed to submit research''
         ''Research submitted for departmental review'' research_defaultValues st"
  by (simp add: research_onSubmit_def verified_def)

lemma journal_ready_facts:
  "verified (otp journal_ready)"
  "journal_authors (authors (formValues journal_ready)) \<noteq> []"
  "list_all (\<lambda>(field, val). val \<noteq> []) (journal_required (formValues journal_ready))"
  by (simp add: journal_ready_def mounted_with_def verified_session_verified) code_simp+

lemma project_ready_facts:
  "verified (otp project_ready)"
  "project_members (members (formValues project_ready)) \<noteq> []"
  "list_all (\<lambda>(field, val). val \<noteq> []) (project_required (formValues project_ready))"
  by (simp add: project_ready_def mounted_with_def verified_session_verified) code_simp+

lemma research_ready_facts:
  "verified (otp research_ready)"
  "research_participants d (participants (formValues research_ready)) = []"
  "list_all (\<lambda>(field, val). val \<noteq> []) (research_required (formValues research_ready))"
proof -
  show "verified (otp research_ready)"
    by (simp add: research_ready_def mounted_with_def verified_session_verified)
  show "research_participants d (participants (formValues research_ready)) = []"
    by (simp add: research_ready_def mounted_with_def soil_study_def research_defaultValues_def
        research_participants_def research_participant_def research_emptyParticipant_def
        property_of_def truthy_val_def trim_def)
  show "list_all (\<lambda>(field, val). val \<noteq> []) (research_required (formValues research_ready))"
    by code_simp
qed

section \<open>Submitting before the email is verified\<close>

text \<open>
  C1.  In each of the three forms, \<open>onSubmit\<close> called while the session's status is not
  \<open>verified\<close>, or while it carries no session identifier, sends no request, raises the
  destructive toast "Verify your campus email before submitting" (the refusal the
  specification calls a PreconditionError) and returns the state it was given.  Submitting
  through \<open>handleSubmit\<close> sends no request either.
\<close>

theorem unverified_submit_is_refused:
  "(otp_session.status (otp js) \<noteq> Verified \<or> sessionId (otp js) = None
      \<or> sessionId (otp js) = Some []
      \<longrightarrow> journal_onSubmit env d js
            = (js, \<lparr>requests = [],
                    toasts = [destructive ''Verify your campus email before submitting'']\<rparr>)
          \<and> requests (snd (handleSubmit journal_required (journal_onSubmit env d) js)) = [])
   \<and> (otp_session.status (otp ps) \<noteq> Verified \<or> sessionId (otp ps) = None
      \<or> sessionId (otp ps) = Some []
      \<longrightarrow> project_onSubmit env d ps
            = (ps, \<lparr>requests = [],
                    toasts = [destructive ''Verify your campus email before submitting'']\<rparr>)
          \<and> requests (snd (handleSubmit project_required (project_onSubmit env d) ps)) = [])
   \<and> (otp_session.status (otp rs) \<noteq> Verified \<or> sessionId (otp rs) = None
      \<or> sessionId (otp rs) = Some []
      \<longrightarrow> research_onSubmit env d rs
            = (rs, \<lparr>requests = [],
                    toasts = [destructive ''Verify your campus email before submitting'']\<rparr>)
          \<and> requests (snd (handleSubmit research_required (research_onSubmit env d) rs)) = [])"
  by (auto simp: journal_onSubmit_def project_onSubmit_def research_onSubmit_def
        no_sessionId_def verify_first_def handleSubmit_def split: option.splits)

theorem unverified_submit_is_refused_witness:
  "otp_session.status (otp journal_fresh) \<noteq> Verified
   \<and> journal_onSubmit offline tcioe_department journal_fresh
       = (journal_fresh,
          \<lparr>requests = [],
           toasts = [destructive ''Verify your campus email before submitting'']\<rparr>)
   \<and> otp_session.status (otp project_fresh) \<noteq> Verified
   \<and> project_onSubmit offline tcioe_department project_fresh
       = (project_fresh,
          \<lparr>requests = [],
           toasts = [destructive ''Verify your campus email before submitting'']\<rparr>)
   \<and> otp_session.status (otp research_fresh) \<noteq> Verified
   \<and> research_onSubmit offline tcioe_department research_fresh
       = (research_fresh,
          \<lparr>requests = [],
           toasts = [destructive ''Verify your campus email before submitting'']\<rparr>)"
proof -
  have j: "otp_session.status (otp journal_fresh) \<noteq> Verified"
    by (simp add: journal_fresh_def mounted_with_def useSubmissionOtp_def)
  have p: "otp_session.status (otp project_fresh) \<noteq> Verified"
    by (simp add: project_fresh_def mounted_with_def useSubmissionOtp_def)
  have r: "otp_session.status (otp research_fresh) \<noteq> Verified"
    by (simp add: research_fresh_def mounted_with_def useSubmissionOtp_def)
  show ?thesis
    using j p r
      unverified_submit_is_refused
        [where js = journal_fresh and ps = project_fresh and rs = research_fresh
           and env = offline and d = tcioe_department]
    by blast
qed

section \<open>What the payload leaves out\<close>











section \<open>The journal scenario\<close>

text \<open>
  C8.  The draft of the scenario (title "Edge AI", genre "Original Article", an abstract,
  one author with given name "Ram", everything else empty) under the verified session
  "sess-1": the body carries the author and the session and has no \<open>keywords\<close> and no
  \<open>discipline\<close>, but \<open>year\<close>, \<open>volume\<close> and \<open>number\<close> are there with the value 0, since
  \<open>Number("")\<close> is 0 and not \<open>NaN\<close>.  The same draft with the submitter's name and email
  filled in passes the \<open>required\<close> rules; \<open>handleSubmit\<close> then sends one request and its
  body has \<open>year\<close> = 0.
\<close>

theorem journal_scenario_sends_year_zero:
  "body (journal_request tcioe_department
           (mounted_with (verified_session ''journal_submission'') edge_ai))
     = JObj [(''title'', JStr ''Edge AI''), (''genre'', JStr ''Original Article''),
             (''abstract'', JStr ''Inference at the edge.''),
             (''year'', JNum 0), (''volume'', JNum 0), (''number'', JNum 0),
             (''submitted_by_name'', JStr []), (''submitted_by_email'', JStr []),
             (''department'', JStr ''dept-1''),
             (''authors'', JArr [JObj [(''given_name'', JStr ''Ram'')]]),
             (''otp_session'', JStr ''sess-1'')]
   \<and> Number (year edge_ai) = Finite 0
   \<and> member (body (journal_request tcioe_department journal_ready)) ''year'' = Some (JNum 0)
   \<and> requests (snd (handleSubmit journal_required (journal_onSubmit env tcioe_department)
                      journal_ready))
       = [journal_request tcioe_department journal_ready]"
proof -
  have a: "body (journal_request tcioe_department
           (mounted_with (verified_session ''journal_submission'') edge_ai))
     = JObj [(''title'', JStr ''Edge AI''), (''genre'', JStr ''Original Article''),
             (''abstract'', JStr ''Inference at the edge.''),
             (''year'', JNum 0), (''volume'', JNum 0), (''number'', JNum 0),
             (''submitted_by_name'', JStr []), (''submitted_by_email'', JStr []),
             (''department'', JStr ''dept-1''),
             (''authors'', JArr [JObj [(''given_name'', JStr ''Ram'')]]),
             (''otp_session'', JStr ''sess-1'')]"
    by code_simp
  have b: "Number (year edge_ai) = Finite 0"
    by code_simp
  have c: "member (body (journal_request tcioe_department journal_ready)) ''year''
             = Some (JNum 0)"
    by code_simp
  have v: "verified (otp (journal_ready\<lparr>isSubmitting := True\<rparr>))"
    using journal_ready_facts(1) by simp
  have n: "journal_authors (authors (formValues (journal_ready\<lparr>isSubmitting := True\<rparr>))) \<noteq> []"
    using journal_ready_facts(2) by simp
  have e: "requests (snd (handleSubmit journal_required (journal_onSubmit env tcioe_department)
                      journal_ready))
       = [journal_request tcioe_department journal_ready]"
    using journal_ready_facts(3)
    by (simp add: handleSubmit_valid journal_onSubmit_send[OF v n] requests_send
          journal_request_isSubmitting)
  show ?thesis using a b c e by simp
qed

theorem journal_scenario_sends_year_zero_witness:
  "member (body (journal_request tcioe_department journal_ready)) ''year'' = Some (JNum 0)
   \<and> requests (snd (handleSubmit journal_required (journal_onSubmit offline tcioe_department)
                      journal_ready))
       = [journal_request tcioe_department journal_ready]"
  using journal_scenario_sends_year_zero[where env = offline] by blast

section \<open>A submission needs an author or a member\<close>

lemma journal_authors_empty:
  "journal_authors as = [] \<longleftrightarrow> list_all (\<lambda>a. trim (givenName a) = []) as"
  by (simp add: journal_authors_def journal_author_def property_of_def truthy_val_def
        filter_empty_conv list_all_iff)

lemma project_members_empty:
  "project_members ms = []
     \<longleftrightarrow> list_all (\<lambda>m. trim (ProjectMemberForm.fullName m) = [] \<or> trim (rollNumber m) = []) ms"
  by (auto simp add: project_members_def project_member_def property_of_def truthy_val_def
        filter_empty_conv list_all_iff)

lemma research_participants_empty:
  "research_participants d ps = []
     \<longleftrightarrow> list_all (\<lambda>p. trim (ParticipantForm.fullName p) = []) ps"
  by (simp add: research_participants_def research_participant_def property_of_def
        truthy_val_def filter_empty_conv list_all_iff)

lemma journal_guard:
  "list_all (\<lambda>a. trim (givenName a) = []) (authors (formValues js)) \<Longrightarrow>
   requests (snd (journal_onSubmit env d js)) = []
   \<and> (verified (otp js) \<longrightarrow>
        journal_onSubmit env d js
          = (js, \<lparr>requests = [], toasts = [destructive ''Add at least one author'']\<rparr>))"
  by (simp add: journal_onSubmit_def verified_def journal_authors_empty Let_def)

lemma project_guard:
  "list_all (\<lambda>m. trim (ProjectMemberForm.fullName m) = [] \<or> trim (rollNumber m) = [])
     (members (formValues ps)) \<Longrightarrow>
   requests (snd (project_onSubmit env d ps)) = []
   \<and> (verified (otp ps) \<longrightarrow>
        project_onSubmit env d ps
          = (ps, \<lparr>requests = [], toasts = [destructive ''Add at least one team member'']\<rparr>))"
  by (simp add: project_onSubmit_def verified_def project_members_empty Let_def)

lemma research_no_guard:
  "verified (otp rs) \<Longrightarrow>
   list_all (\<lambda>p. trim (ParticipantForm.fullName p) = []) (participants (formValues rs)) \<Longrightarrow>
   requests (snd (research_onSubmit env d rs)) = [research_request d rs]
   \<and> member (body (research_request d rs)) ''participants'' = Some (JArr [])"
  by (simp add: research_onSubmit_send requests_send)
     (simp add: research_request_def research_payload_def research_participants_empty
        absent_simps)

text \<open>
  C3, as the code has it.  In the journal form and in the project form a draft in which no
  author keeps a given name, or no member keeps both a full name and a roll number, after
  trimming sends no request; under a verified session \<open>onSubmit\<close> raises the destructive
  toast "Add at least one author" or "Add at least one team member" (the
  ValidationError) and returns its state.  The research form has no such guard: under a
  verified session a draft without a named participant is sent, with an empty
  \<open>participants\<close> array.
\<close>

theorem submit_without_author_or_member:
  "(list_all (\<lambda>a. trim (givenName a) = []) (authors (formValues js)) \<longrightarrow>
      requests (snd (journal_onSubmit env d js)) = []
      \<and> (verified (otp js) \<longrightarrow>
           journal_onSubmit env d js
             = (js, \<lparr>requests = [], toasts = [destructive ''Add at least one author'']\<rparr>)))
   \<and> (list_all (\<lambda>m. trim (ProjectMemberForm.fullName m) = [] \<or> trim (rollNumber m) = [])
         (members (formValues ps)) \<longrightarrow>
      requests (snd (project_onSubmit env d ps)) = []
      \<and> (verified (otp ps) \<longrightarrow>
           project_onSubmit env d ps
             = (ps, \<lparr>requests = [],
                     toasts = [destructive ''Add at least one team member'']\<rparr>)))
   \<and> (verified (otp rs)
       \<and> list_all (\<lambda>p. trim (ParticipantForm.fullName p) = []) (participants (formValues rs))
      \<longrightarrow>
      requests (snd (research_onSubmit env d rs)) = [research_request d rs]
      \<and> member (body (research_request d rs)) ''participants'' = Some (JArr []))"
  using journal_guard[of js env d] project_guard[of ps env d] research_no_guard[of rs env d]
  by blast

theorem submit_without_author_or_member_witness:
  "journal_onSubmit offline tcioe_department journal_nameless
     = (journal_nameless,
        \<lparr>requests = [], toasts = [destructive ''Add at least one author'']\<rparr>)
   \<and> project_onSubmit offline tcioe_department project_nameless
     = (project_nameless,
        \<lparr>requests = [], toasts = [destructive ''Add at least one team member'']\<rparr>)
   \<and> requests (snd (research_onSubmit offline tcioe_department research_ready))
     = [research_request tcioe_department research_ready]"
proof -
  have j: "list_all (\<lambda>a. trim (givenName a) = []) (authors (formValues journal_nameless))"
    by code_simp
  have p: "list_all (\<lambda>m. trim (ProjectMemberForm.fullName m) = [] \<or> trim (rollNumber m) = [])
             (members (formValues project_nameless))"
    by code_simp
  have r: "list_all (\<lambda>p. trim (ParticipantForm.fullName p) = [])
             (participants (formValues research_ready))"
    using research_ready_facts(2)[of tcioe_department]
    by (simp add: research_participants_empty)
  have vj: "verified (otp journal_nameless)"
    by (simp add: journal_nameless_def mounted_with_def verified_session_verified)
  have vp: "verified (otp project_nameless)"
    by (simp add: project_nameless_def mounted_with_def verified_session_verified)
  show ?thesis
    using j p r vj vp research_ready_facts(1)
      submit_without_author_or_member
        [where js = journal_nameless and ps = project_nameless and rs = research_ready
           and env = offline and d = tcioe_department]
    by blast
qed

text \<open>
  C3 as stated fails for the research form: under a verified session, a draft that fills
  every required field and names no participant is sent, and the toast is the one of a
  successful submission.
\<close>

theorem research_submits_without_participants:
  "map (trim \<circ> ParticipantForm.fullName) (participants (formValues research_ready)) = [[]]
   \<and> requests (snd (handleSubmit research_required
                      (research_onSubmit (answering 201 (Some (JObj []))) tcioe_department)
                      research_ready))
       = [research_request tcioe_department research_ready]
   \<and> toasts (snd (research_onSubmit (answering 201 (Some (JObj []))) tcioe_department
                    research_ready))
       = [notice ''Research submitted for departmental review'']
   \<and> member (body (research_request tcioe_department research_ready)) ''participants''
       = Some (JArr [])"
  by code_simp

section \<open>Changing the submitter's email\<close>

text \<open>
  C4.  In each form and whatever the session holds, giving \<open>submittedByEmail\<close> a value
  different from the one it has leaves the session idle, without session identifier and
  without error, and the code input empty.
\<close>

theorem email_change_resets_session:
  "(e \<noteq> JournalFormValues.submittedByEmail (formValues js) \<longrightarrow>
      otp_session.status (otp (journal_change_email e js)) = Idle
      \<and> sessionId (otp (journal_change_email e js)) = None
      \<and> otp_session.error (otp (journal_change_email e js)) = None
      \<and> otpCode (journal_change_email e js) = []
      \<and> JournalFormValues.submittedByEmail (formValues (journal_change_email e js)) = e)
   \<and> (e \<noteq> ProjectFormValues.submittedByEmail (formValues ps) \<longrightarrow>
      otp_session.status (otp (project_change_email e ps)) = Idle
      \<and> sessionId (otp (project_change_email e ps)) = None
      \<and> otp_session.error (otp (project_change_email e ps)) = None
      \<and> otpCode (project_change_email e ps) = []
      \<and> ProjectFormValues.submittedByEmail (formValues (project_change_email e ps)) = e)
   \<and> (e \<noteq> ResearchFormValues.submittedByEmail (formValues rs) \<longrightarrow>
      otp_session.status (otp (research_change_email e rs)) = Idle
      \<and> sessionId (otp (research_change_email e rs)) = None
      \<and> otp_session.error (otp (research_change_email e rs)) = None
      \<and> otpCode (research_change_email e rs) = []
      \<and> ResearchFormValues.submittedByEmail (formValues (research_change_email e rs)) = e)"
  by (simp add: journal_change_email_def project_change_email_def research_change_email_def
        change_email_def email_effect_def otp_reset_def Let_def)

theorem email_change_resets_session_witness:
  "otp_session.status (otp journal_ready) = Verified
   \<and> otpCode journal_ready = ''482913''
   \<and> otp_session.status (otp (journal_change_email ''ram@tcioe.edu.np'' journal_ready)) = Idle
   \<and> sessionId (otp (journal_change_email ''ram@tcioe.edu.np'' journal_ready)) = None
   \<and> otpCode (journal_change_email ''ram@tcioe.edu.np'' journal_ready) = []
   \<and> otp_session.status (otp (project_change_email ''ram@tcioe.edu.np'' project_ready)) = Idle
   \<and> sessionId (otp (project_change_email ''ram@tcioe.edu.np'' project_ready)) = None
   \<and> otpCode (project_change_email ''ram@tcioe.edu.np'' project_ready) = []
   \<and> otp_session.status (otp (research_change_email ''ram@tcioe.edu.np'' research_ready)) = Idle
   \<and> sessionId (otp (research_change_email ''ram@tcioe.edu.np'' research_ready)) = None
   \<and> otpCode (research_change_email ''ram@tcioe.edu.np'' research_ready) = []"
proof -
  have h: "''ram@tcioe.edu.np'' \<noteq> JournalFormValues.submittedByEmail (formValues journal_ready)
      \<and> ''ram@tcioe.edu.np'' \<noteq> ProjectFormValues.submittedByEmail (formValues project_ready)
      \<and> ''ram@tcioe.edu.np'' \<noteq> ResearchFormValues.submittedByEmail (formValues research_ready)
      \<and> otp_session.status (otp journal_ready) = Verified
      \<and> otpCode journal_ready = ''482913''"
    by code_simp
  show ?thesis
    using h
      email_change_resets_session
        [where e = "''ram@tcioe.edu.np''" and js = journal_ready and ps = project_ready
           and rs = research_ready]
    by blast
qed

section \<open>The list of rows is never empty\<close>

lemma clicks_nonempty: "rows \<noteq> [] \<Longrightarrow> clicks template cs rows \<noteq> []"
proof (induction cs arbitrary: rows)
  case Nil
  then show ?case by simp
next
  case (Cons c cs)
  have "on_click template c rows \<noteq> []"
  proof (cases c)
    case Add
    then show ?thesis by (simp add: on_click_def fieldArray_append_def)
  next
    case (RemoveRow i)
    show ?thesis
    proof (cases "length rows > 1 \<and> i < length rows")
      case True
      then have "length (fieldArray_remove i rows) = length rows - 1"
        by (simp add: fieldArray_remove_def)
      then have "fieldArray_remove i rows \<noteq> []" using True by auto
      then show ?thesis using True RemoveRow by (simp add: on_click_def)
    next
      case False
      then show ?thesis using RemoveRow Cons.prems by (auto simp add: on_click_def)
    qed
  qed
  then show ?case using Cons.IH by simp
qed

lemma clicks_length: "rows \<noteq> [] \<Longrightarrow> 1 \<le> length (clicks template cs rows)"
  using clicks_nonempty[of rows template cs] by (cases "clicks template cs rows") simp_all

lemma remove_subseq: "subseq (fieldArray_remove i rows) rows"
proof -
  have "subseq (drop (Suc i) rows) (drop i rows)"
    by (metis drop_Suc suffix_imp_subseq suffix_tl tl_drop)
  then have "subseq (take i rows @ drop (Suc i) rows) (take i rows @ drop i rows)"
    by (simp only: subseq_append')
  then show ?thesis by (simp only: fieldArray_remove_def append_take_drop_id)
qed

lemma remove_nth:
  "i < length rows \<Longrightarrow> j < length rows - 1 \<Longrightarrow>
   fieldArray_remove i rows ! j = rows ! (if j < i then j else Suc j)"
  by (auto simp: fieldArray_remove_def nth_append min_def)

text \<open>
  C5.  Starting from the one row of the default values, no sequence of clicks on "Add"
  and "Remove" leaves fewer than one row, in any of the three forms.  A click on "Remove"
  changes nothing while there is at most one row; with more than one row it takes out the
  row at the index clicked: the list is one shorter, a subsequence of the old one, and the
  rows before the index keep their place while those after it move up by one.
\<close>

theorem rows_never_drop_below_one:
  "1 \<le> length (clicks journal_emptyAuthor cs (authors journal_defaultValues))
   \<and> 1 \<le> length (clicks project_emptyMember cs (members project_defaultValues))
   \<and> 1 \<le> length (clicks research_emptyParticipant cs (participants research_defaultValues))
   \<and> (length few \<le> 1 \<longrightarrow> on_click template (RemoveRow i) few = few)
   \<and> (1 < length rows \<and> i < length rows \<longrightarrow>
        length (on_click template (RemoveRow i) rows) = length rows - 1
        \<and> subseq (on_click template (RemoveRow i) rows) rows
        \<and> (\<forall>j < length rows - 1.
              on_click template (RemoveRow i) rows ! j = rows ! (if j < i then j else Suc j)))"
proof -
  have a: "1 \<le> length (clicks journal_emptyAuthor cs (authors journal_defaultValues))"
    by (rule clicks_length) (simp add: journal_defaultValues_def)
  have b: "1 \<le> length (clicks project_emptyMember cs (members project_defaultValues))"
    by (rule clicks_length) (simp add: project_defaultValues_def)
  have c: "1 \<le> length (clicks research_emptyParticipant cs
                         (participants research_defaultValues))"
    by (rule clicks_length) (simp add: research_defaultValues_def)
  have d: "length few \<le> 1 \<longrightarrow> on_click template (RemoveRow i) few = few"
    by (simp add: on_click_def)
  have e: "1 < length rows \<and> i < length rows \<longrightarrow>
        length (on_click template (RemoveRow i) rows) = length rows - 1
        \<and> subseq (on_click template (RemoveRow i) rows) rows
        \<and> (\<forall>j < length rows - 1.
              on_click template (RemoveRow i) rows ! j = rows ! (if j < i then j else Suc j))"
  proof
    assume h: "1 < length rows \<and> i < length rows"
    then have o: "on_click template (RemoveRow i) rows = fieldArray_remove i rows"
      by (simp add: on_click_def)
    have l: "length (fieldArray_remove i rows) = length rows - 1"
      using h by (simp add: fieldArray_remove_def)
    show "length (on_click template (RemoveRow i) rows) = length rows - 1
        \<and> subseq (on_click template (RemoveRow i) rows) rows
        \<and> (\<forall>j < length rows - 1.
              on_click template (RemoveRow i) rows ! j = rows ! (if j < i then j else Suc j))"
      using h l remove_subseq[of i rows] remove_nth[of i rows] by (simp only: o) blast
  qed
  show ?thesis using a b c d e by blast
qed

theorem rows_never_drop_below_one_witness:
  "1 \<le> length (clicks journal_emptyAuthor [RemoveRow 0, Add, RemoveRow 1, RemoveRow 0]
                  (authors journal_defaultValues))
   \<and> on_click journal_emptyAuthor (RemoveRow 0) [ram] = [ram]
   \<and> length (on_click journal_emptyAuthor (RemoveRow 0) [journal_emptyAuthor, ram]) = 1
   \<and> subseq (on_click journal_emptyAuthor (RemoveRow 0) [journal_emptyAuthor, ram])
        [journal_emptyAuthor, ram]
   \<and> on_click journal_emptyAuthor (RemoveRow 0) [journal_emptyAuthor, ram] ! 0 = ram"
  using rows_never_drop_below_one
          [where cs = "[RemoveRow 0, Add, RemoveRow 1, RemoveRow 0]" and few = "[ram]"
             and rows = "[journal_emptyAuthor, ram]" and i = 0
             and template = journal_emptyAuthor]
  by simp

section \<open>The outcome of the gateway call\<close>

lemma send_success:
  "fetch env req = Resolved r \<Longrightarrow> 200 \<le> response.status r \<Longrightarrow> response.status r \<le> 299 \<Longrightarrow>
   send env req fallback success dv st
     = (st\<lparr>formValues := dv, otp := otp_reset (otp st), otpCode := []\<rparr>,
        \<lparr>requests = [req], toasts = [notice success]\<rparr>)"
  by (simp add: send_def ok_def Let_def)

lemma send_rejected:
  "fetch env req = Rejected e \<Longrightarrow>
   send env req fallback success dv st
     = (st, \<lparr>requests = [req],
             toasts = [destructive (case e of ErrorObject m \<Rightarrow> m | NonError \<Rightarrow> fallback)]\<rparr>)"
  by (simp add: send_def caught_message_def)

lemma send_not_ok:
  "fetch env req = Resolved r \<Longrightarrow> \<not> (200 \<le> response.status r \<and> response.status r \<le> 299) \<Longrightarrow>
   send env req fallback success dv st
     = (st, \<lparr>requests = [req],
             toasts = [destructive
                         (failure_message (numberToString env)
                            (case json_body r of None \<Rightarrow> JObj [] | Some j \<Rightarrow> j) fallback)]\<rparr>)"
  by (simp add: send_def ok_def Let_def caught_message_def)

lemma otp_reset_idle:
  "otp_session.status (otp_reset s) = Idle \<and> sessionId (otp_reset s) = None
   \<and> otp_session.error (otp_reset s) = None"
  by (simp add: otp_reset_def)

lemma handleSubmit_isSubmitting:
  "isSubmitting (fst (handleSubmit required onSubmit st)) = False"
  by (simp add: handleSubmit_def case_prod_unfold Let_def)

lemma journal_success:
  "(verified (otp js) \<and> journal_authors (authors (formValues js)) \<noteq> []
       \<and> fetch env (journal_request d js) = Resolved r
       \<and> 200 \<le> response.status r \<and> response.status r \<le> 299
      \<longrightarrow>
      journal_onSubmit env d js
        = (js\<lparr>formValues := journal_defaultValues, otp := otp_reset (otp js), otpCode := []\<rparr>,
           \<lparr>requests = [journal_request d js], toasts = [notice ''Journal article submitted'']\<rparr>)
      \<and> otp_session.status (otp (fst (journal_onSubmit env d js))) = Idle
      \<and> sessionId (otp (fst (journal_onSubmit env d js))) = None
      \<and> otp_session.error (otp (fst (journal_onSubmit env d js))) = None)"
  by (auto simp: journal_onSubmit_send send_success otp_reset_def)

lemma journal_thrown:
  "(verified (otp js) \<and> journal_authors (authors (formValues js)) \<noteq> []
       \<and> fetch env_t (journal_request d js) = Rejected e
      \<longrightarrow>
      journal_onSubmit env_t d js
        = (js, \<lparr>requests = [journal_request d js],
                toasts = [destructive (case e of ErrorObject m \<Rightarrow> m
                                       | NonError \<Rightarrow> ''Failed to submit article'')]\<rparr>))"
  by (auto simp: journal_onSubmit_send send_rejected)

lemma journal_refused:
  "(verified (otp js) \<and> journal_authors (authors (formValues js)) \<noteq> []
       \<and> fetch env_r (journal_request d js) = Resolved r
       \<and> \<not> (200 \<le> response.status r \<and> response.status r \<le> 299)
      \<longrightarrow>
      journal_onSubmit env_r d js
        = (js, \<lparr>requests = [journal_request d js],
                toasts = [destructive
                            (failure_message (numberToString env_r)
                               (case json_body r of None \<Rightarrow> JObj [] | Some j \<Rightarrow> j)
                               ''Failed to submit article'')]\<rparr>))"
  by (auto simp: journal_onSubmit_send send_not_ok)

lemma project_success:
  "(verified (otp ps) \<and> project_members (members (formValues ps)) \<noteq> []
       \<and> fetch env (project_request d ps) = Resolved r
       \<and> 200 \<le> response.status r \<and> response.status r \<le> 299
      \<longrightarrow>
      project_onSubmit env d ps
        = (ps\<lparr>formValues := project_defaultValues, otp := otp_reset (otp ps), otpCode := []\<rparr>,
           \<lparr>requests = [project_request d ps], toasts = [notice ''Project submitted for review'']\<rparr>)
      \<and> otp_session.status (otp (fst (project_onSubmit env d ps))) = Idle
      \<and> sessionId (otp (fst (project_onSubmit env d ps))) = None
      \<and> otp_session.error (otp (fst (project_onSubmit env d ps))) = None)"
  by (auto simp: project_onSubmit_send send_success otp_reset_def)

lemma project_thrown:
  "(verified (otp ps) \<and> project_members (members (formValues ps)) \<noteq> []
       \<and> fetch env_t (project_request d ps) = Rejected e
      \<longrightarrow>
      project_onSubmit env_t d ps
        = (ps, \<lparr>requests = [project_request d ps],
                toasts = [destructive (case e of ErrorObject m \<Rightarrow> m
                                       | NonError \<Rightarrow> ''Failed to submit project'')]\<rparr>))"
  by (auto simp: project_onSubmit_send send_rejected)

lemma project_refused:
  "(verified (otp ps) \<and> project_members (members (formValues ps)) \<noteq> []
       \<and> fetch env_r (project_request d ps) = Resolved r
       \<and> \<not> (200 \<le> response.status r \<and> response.status r \<le> 299)
      \<longrightarrow>
      project_onSubmit env_r d ps
        = (ps, \<lparr>requests = [project_request d ps],
                toasts = [destructive
                            (failure_message (numberToString env_r)
                               (case json_body r of None \<Rightarrow> JObj [] | Some j \<Rightarrow> j)
                               ''Failed to submit project'')]\<rparr>))"
  by (auto simp: project_onSubmit_send send_not_ok)

lemma research_success:
  "(verified (otp rs)
       \<and> fetch env (research_request d rs) = Resolved r
       \<and> 200 \<le> response.status r \<and> response.status r \<le> 299
      \<longrightarrow>
      research_onSubmit env d rs
        = (rs\<lparr>formValues := research_defaultValues, otp := otp_reset (otp rs), otpCode := []\<rparr>,
           \<lparr>requests = [research_request d rs], toasts = [notice ''Research submitted for departmental review'']\<rparr>)
      \<and> otp_session.status (otp (fst (research_onSubmit env d rs))) = Idle
      \<and> sessionId (otp (fst (research_onSubmit env d rs))) = None
      \<and> otp_session.error (otp (fst (research_onSubmit env d rs))) = None)"
  by (auto simp: research_onSubmit_send send_success otp_reset_def)

lemma research_thrown:
  "(verified (otp rs)
       \<and> fetch env_t (research_request d rs) = Rejected e
      \<longrightarrow>
      research_onSubmit env_t d rs
        = (rs, \<lparr>requests = [research_request d rs],
                toasts = [destructive (case e of ErrorObject m \<Rightarrow> m
                                       | NonError \<Rightarrow> ''Failed to submit research'')]\<rparr>))"
  by (auto simp: research_onSubmit_send send_rejected)

lemma research_refused:
  "(verified (otp rs)
       \<and> fetch env_r (research_request d rs) = Resolved r
       \<and> \<not> (200 \<le> response.status r \<and> response.status r \<le> 299)
      \<longrightarrow>
      research_onSubmit env_r d rs
        = (rs, \<lparr>requests = [research_request d rs],
                toasts = [destructive
                            (failure_message (numberToString env_r)
                               (case json_body r of None \<Rightarrow> JObj [] | Some j \<Rightarrow> j)
                               ''Failed to submit research'')]\<rparr>))"
  by (auto simp: research_onSubmit_send send_not_ok)

text \<open>
  C6.  In each form, when the session is verified, the draft passes the guard and the
  gateway answers the request with a status in 200--299, \<open>onSubmit\<close> returns the draft
  reset to the default values, the session reset (idle, no session identifier, no error)
  and the code input empty.
\<close>

theorem success_resets_form:
  "(verified (otp js) \<and> journal_authors (authors (formValues js)) \<noteq> []
       \<and> fetch env (journal_request d js) = Resolved r
       \<and> 200 \<le> response.status r \<and> response.status r \<le> 299
      \<longrightarrow>
      journal_onSubmit env d js
        = (js\<lparr>formValues := journal_defaultValues, otp := otp_reset (otp js), otpCode := []\<rparr>,
           \<lparr>requests = [journal_request d js], toasts = [notice ''Journal article submitted'']\<rparr>)
      \<and> otp_session.status (otp (fst (journal_onSubmit env d js))) = Idle
      \<and> sessionId (otp (fst (journal_onSubmit env d js))) = None
      \<and> otp_session.error (otp (fst (journal_onSubmit env d js))) = None)
   \<and> (verified (otp ps) \<and> project_members (members (formValues ps)) \<noteq> []
       \<and> fetch env (project_request d ps) = Resolved r
       \<and> 200 \<le> response.status r \<and> response.status r \<le> 299
      \<longrightarrow>
      project_onSubmit env d ps
        = (ps\<lparr>formValues := project_defaultValues, otp := otp_reset (otp ps), otpCode := []\<rparr>,
           \<lparr>requests = [project_request d ps], toasts = [notice ''Project submitted for review'']\<rparr>)
      \<and> otp_session.status (otp (fst (project_onSubmit env d ps))) = Idle
      \<and> sessionId (otp (fst (project_onSubmit env d ps))) = None
      \<and> otp_session.error (otp (fst (project_onSubmit env d ps))) = None)
   \<and> (verified (otp rs)
       \<and> fetch env (research_request d rs) = Resolved r
       \<and> 200 \<le> response.status r \<and> response.status r \<le> 299
      \<longrightarrow>
      research_onSubmit env d rs
        = (rs\<lparr>formValues := research_defaultValues, otp := otp_reset (otp rs), otpCode := []\<rparr>,
           \<lparr>requests = [research_request d rs], toasts = [notice ''Research submitted for departmental review'']\<rparr>)
      \<and> otp_session.status (otp (fst (research_onSubmit env d rs))) = Idle
      \<and> sessionId (otp (fst (research_onSubmit env d rs))) = None
      \<and> otp_session.error (otp (fst (research_onSubmit env d rs))) = None)"
  by (rule conjI[OF journal_success conjI[OF project_success research_success]])

lemma failure_message_chain:
  "(member data_d ''detail'' = Some dv \<and> truthy dv
      \<longrightarrow> failure_message nts data_d fallback = ToString nts dv)
   \<and> ((member data_e ''detail'' = None
          \<or> (\<exists>dv. member data_e ''detail'' = Some dv \<and> \<not> truthy dv))
       \<and> member data_e ''error'' = Some ev \<and> truthy ev
      \<longrightarrow> failure_message nts data_e fallback = ToString nts ev)
   \<and> ((member data_n ''detail'' = None
          \<or> (\<exists>dv. member data_n ''detail'' = Some dv \<and> \<not> truthy dv))
       \<and> (member data_n ''error'' = None
          \<or> (\<exists>ev. member data_n ''error'' = Some ev \<and> \<not> truthy ev))
      \<longrightarrow> failure_message nts data_n fallback = fallback)"
  by (auto simp: failure_message_def js_or_def)

text \<open>
  C7, as the code has it.  When the gateway call fails, \<open>onSubmit\<close> returns the state it
  was given: session, draft and code input are untouched; and \<open>handleSubmit\<close> leaves
  \<open>isSubmitting\<close> false.  When \<open>fetch\<close> throws an \<open>Error\<close> the toast shows the message of
  that \<open>Error\<close>, and the fallback of the form only when what was thrown is not an
  \<open>Error\<close>.  When the response is outside 200--299 the toast shows the string form of the
  body's \<open>detail\<close> when that is truthy, else of its \<open>error\<close> when that is truthy, else
  the fallback of the form.
\<close>

theorem failed_submit_keeps_session_and_draft:
  "(verified (otp js) \<and> journal_authors (authors (formValues js)) \<noteq> []
       \<and> fetch env_t (journal_request d js) = Rejected e
      \<longrightarrow>
      journal_onSubmit env_t d js
        = (js, \<lparr>requests = [journal_request d js],
                toasts = [destructive (case e of ErrorObject m \<Rightarrow> m
                                       | NonError \<Rightarrow> ''Failed to submit article'')]\<rparr>))
   \<and> (verified (otp ps) \<and> project_members (members (formValues ps)) \<noteq> []
       \<and> fetch env_t (project_request d ps) = Rejected e
      \<longrightarrow>
      project_onSubmit env_t d ps
        = (ps, \<lparr>requests = [project_request d ps],
                toasts = [destructive (case e of ErrorObject m \<Rightarrow> m
                                       | NonError \<Rightarrow> ''Failed to submit project'')]\<rparr>))
   \<and> (verified (otp rs)
       \<and> fetch env_t (research_request d rs) = Rejected e
      \<longrightarrow>
      research_onSubmit env_t d rs
        = (rs, \<lparr>requests = [research_request d rs],
                toasts = [destructive (case e of ErrorObject m \<Rightarrow> m
                                       | NonError \<Rightarrow> ''Failed to submit research'')]\<rparr>))
   \<and> (verified (otp js) \<and> journal_authors (authors (formValues js)) \<noteq> []
       \<and> fetch env_r (journal_request d js) = Resolved r
       \<and> \<not> (200 \<le> response.status r \<and> response.status r \<le> 299)
      \<longrightarrow>
      journal_onSubmit env_r d js
        = (js, \<lparr>requests = [journal_request d js],
                toasts = [destructive
                            (failure_message (numberToString env_r)
                               (case json_body r of None \<Rightarrow> JObj [] | Some j \<Rightarrow> j)
                               ''Failed to submit article'')]\<rparr>))
   \<and> (verified (otp ps) \<and> project_members (members (formValues ps)) \<noteq> []
       \<and> fetch env_r (project_request d ps) = Resolved r
       \<and> \<not> (200 \<le> response.status r \<and> response.status r \<le> 299)
      \<longrightarrow>
      project_onSubmit env_r d ps
        = (ps, \<lparr>requests = [project_request d ps],
                toasts = [destructive
                            (failure_message (numberToString env_r)
                               (case json_body r of None \<Rightarrow> JObj [] | Some j \<Rightarrow> j)
                               ''Failed to submit project'')]\<rparr>))
   \<and> (verified (otp rs)
       \<and> fetch env_r (research_request d rs) = Resolved r
       \<and> \<not> (200 \<le> response.status r \<and> response.status r \<le> 299)
      \<longrightarrow>
      research_onSubmit env_r d rs
        = (rs, \<lparr>requests = [research_request d rs],
                toasts = [destructive
                            (failure_message (numberToString env_r)
                               (case json_body r of None \<Rightarrow> JObj [] | Some j \<Rightarrow> j)
                               ''Failed to submit research'')]\<rparr>))
   \<and> (member data_d ''detail'' = Some dv \<and> truthy dv
      \<longrightarrow> failure_message nts data_d fallback = ToString nts dv)
   \<and> ((member data_e ''detail'' = None
          \<or> (\<exists>dv. member data_e ''detail'' = Some dv \<and> \<not> truthy dv))
       \<and> member data_e ''error'' = Some ev \<and> truthy ev
      \<longrightarrow> failure_message nts data_e fallback = ToString nts ev)
   \<and> ((member data_n ''detail'' = None
          \<or> (\<exists>dv. member data_n ''detail'' = Some dv \<and> \<not> truthy dv))
       \<and> (member data_n ''error'' = None
          \<or> (\<exists>ev. member data_n ''error'' = Some ev \<and> \<not> truthy ev))
      \<longrightarrow> failure_message nts data_n fallback = fallback)
   \<and> isSubmitting (fst (handleSubmit required onSubmit st)) = False"
  by (rule conjI[OF journal_thrown conjI[OF project_thrown conjI[OF research_thrown
        conjI[OF journal_refused conjI[OF project_refused conjI[OF research_refused
        conjI[OF failure_message_chain[THEN conjunct1]
        conjI[OF failure_message_chain[THEN conjunct2, THEN conjunct1]
        conjI[OF failure_message_chain[THEN conjunct2, THEN conjunct2]
          handleSubmit_isSubmitting]]]]]]]]])

text \<open>
  C7 as stated fails: when \<open>fetch\<close> throws there is no upstream body, and the toast shows
  "Failed to fetch", the message of what was thrown, not the fallback of the form; and a
  \<open>detail\<close> that is present but empty is passed over in favour of \<open>error\<close>.
\<close>

theorem thrown_error_shows_its_own_message:
  "fetch offline (journal_request tcioe_department journal_ready)
     = Rejected (ErrorObject ''Failed to fetch'')
   \<and> toasts (snd (journal_onSubmit offline tcioe_department journal_ready))
       = [destructive ''Failed to fetch'']
   \<and> ''Failed to fetch'' \<noteq> ''Failed to submit article''
   \<and> toasts (snd (journal_onSubmit
                    (answering 400
                       (Some (JObj [(''detail'', JStr []), (''error'', JStr ''Bad request'')])))
                    tcioe_department journal_ready))
       = [destructive ''Bad request'']"
  by code_simp

lemma fetch_answering: "fetch (answering s b) req = Resolved \<lparr>response.status = s, json_body = b\<rparr>"
  by (simp add: answering_def)

theorem success_resets_form_witness:
  "journal_onSubmit (answering 201 (Some (JObj []))) tcioe_department journal_ready
     = (journal_ready\<lparr>formValues := journal_defaultValues,
                      otp := otp_reset (otp journal_ready), otpCode := []\<rparr>,
        \<lparr>requests = [journal_request tcioe_department journal_ready],
         toasts = [notice ''Journal article submitted'']\<rparr>)
   \<and> otp_session.status
        (otp (fst (journal_onSubmit (answering 201 (Some (JObj []))) tcioe_department
                     journal_ready))) = Idle
   \<and> project_onSubmit (answering 201 (Some (JObj []))) tcioe_department project_ready
     = (project_ready\<lparr>formValues := project_defaultValues,
                      otp := otp_reset (otp project_ready), otpCode := []\<rparr>,
        \<lparr>requests = [project_request tcioe_department project_ready],
         toasts = [notice ''Project submitted for review'']\<rparr>)
   \<and> research_onSubmit (answering 201 (Some (JObj []))) tcioe_department research_ready
     = (research_ready\<lparr>formValues := research_defaultValues,
                       otp := otp_reset (otp research_ready), otpCode := []\<rparr>,
        \<lparr>requests = [research_request tcioe_department research_ready],
         toasts = [notice ''Research submitted for departmental review'']\<rparr>)"
  using success_resets_form
          [where env = "answering 201 (Some (JObj []))" and d = tcioe_department
             and r = "\<lparr>response.status = 201, json_body = Some (JObj [])\<rparr>"
             and js = journal_ready and ps = project_ready and rs = research_ready]
        journal_ready_facts(1,2) project_ready_facts(1,2) research_ready_facts(1)
  by (simp add: fetch_answering otp_reset_idle)

lemma duplicate_title_facts:
  "member duplicate_title ''detail'' = Some (JStr ''Duplicate title'')"
  "truthy (JStr ''Duplicate title'')"
  "member (JObj [(''error'', JStr ''Bad request'')]) ''detail'' = None"
  "member (JObj [(''error'', JStr ''Bad request'')]) ''error'' = Some (JStr ''Bad request'')"
  "truthy (JStr ''Bad request'')"
  "member (JObj []) ''detail'' = None"
  "member (JObj []) ''error'' = None"
  by (simp_all add: duplicate_title_def member_def truthy_def)

lemma duplicate_title_shown:
  "failure_message (numberToString (answering 400 (Some duplicate_title))) duplicate_title
     ''Failed to submit project'' = ''Duplicate title''"
  "failure_message (numberToString (answering 400 (Some duplicate_title))) duplicate_title
     ''Failed to submit research'' = ''Duplicate title''"
  by code_simp+

theorem failed_submit_keeps_session_and_draft_witness:
  "journal_onSubmit offline tcioe_department journal_ready
     = (journal_ready, \<lparr>requests = [journal_request tcioe_department journal_ready],
                         toasts = [destructive ''Failed to fetch'']\<rparr>)
   \<and> project_onSubmit offline tcioe_department project_ready
     = (project_ready, \<lparr>requests = [project_request tcioe_department project_ready],
                         toasts = [destructive ''Failed to fetch'']\<rparr>)
   \<and> research_onSubmit offline tcioe_department research_ready
     = (research_ready, \<lparr>requests = [research_request tcioe_department research_ready],
                          toasts = [destructive ''Failed to fetch'']\<rparr>)
   \<and> journal_onSubmit (answering 400 (Some duplicate_title)) tcioe_department journal_ready
     = (journal_ready, \<lparr>requests = [journal_request tcioe_department journal_ready],
                         toasts = [destructive ''Duplicate title'']\<rparr>)
   \<and> project_onSubmit (answering 400 (Some duplicate_title)) tcioe_department project_ready
     = (project_ready, \<lparr>requests = [project_request tcioe_department project_ready],
                         toasts = [destructive ''Duplicate title'']\<rparr>)
   \<and> research_onSubmit (answering 400 (Some duplicate_title)) tcioe_department research_ready
     = (research_ready, \<lparr>requests = [research_request tcioe_department research_ready],
                          toasts = [destructive ''Duplicate title'']\<rparr>)
   \<and> failure_message (numberToString (answering 400 (Some duplicate_title)))
        (JObj [(''error'', JStr ''Bad request'')]) ''Failed to submit article'' = ''Bad request''
   \<and> failure_message (numberToString (answering 400 (Some duplicate_title)))
        (JObj []) ''Failed to submit article'' = ''Failed to submit article''
   \<and> isSubmitting (fst (handleSubmit journal_required
                            (journal_onSubmit offline tcioe_department) journal_ready)) = False"
  using failed_submit_keeps_session_and_draft
          [where env_t = offline and e = "ErrorObject ''Failed to fetch''"
             and env_r = "answering 400 (Some duplicate_title)"
             and r = "\<lparr>response.status = 400, json_body = Some duplicate_title\<rparr>"
             and d = tcioe_department
             and js = journal_ready and ps = project_ready and rs = research_ready
             and nts = "numberToString (answering 400 (Some duplicate_title))"
             and fallback = "''Failed to submit article''"
             and data_d = duplicate_title and dv = "JStr ''Duplicate title''"
             and data_e = "JObj [(''error'', JStr ''Bad request'')]"
             and ev = "JStr ''Bad request''" and data_n = "JObj []"
             and required = journal_required
             and onSubmit = "journal_onSubmit offline tcioe_department"
             and st = journal_ready]
        journal_ready_facts(1,2) project_ready_facts(1,2) research_ready_facts(1)
        duplicate_title_facts duplicate_title_shown
  by (simp add: fetch_answering offline_def)

section \<open>The proxy\<close>

lemma POST_relay:
  "upstream env (forwarded rt env payload) = Resolved r \<Longrightarrow>
   200 \<le> response.status r \<Longrightarrow> response.status r \<le> 599 \<Longrightarrow>
   response.status r \<noteq> 204 \<Longrightarrow> response.status r \<noteq> 205 \<Longrightarrow> response.status r \<noteq> 304 \<Longrightarrow>
   POST rt env (Some payload)
     = (\<lparr>response.status = response.status r,
         json_body = Some (case json_body r of None \<Rightarrow> JObj [] | Some j \<Rightarrow> j)\<rparr>,
        [forwarded rt env payload])"
  by (simp add: POST_def NextResponse_json_def Let_def)

lemma POST_unreadable:
  "POST rt env None
     = (\<lparr>response.status = 500, json_body = Some (JObj [(''error'', JStr (unable rt))])\<rparr>, [])"
  by (simp add: POST_def unable_response_def)

lemma POST_rejected:
  "upstream env (forwarded rt env payload) = Rejected e \<Longrightarrow>
   POST rt env (Some payload)
     = (\<lparr>response.status = 500, json_body = Some (JObj [(''error'', JStr (unable rt))])\<rparr>,
        [forwarded rt env payload])"
  by (simp add: POST_def unable_response_def Let_def)

lemma POST_unbuildable:
  "upstream env (forwarded rt env payload) = Resolved r \<Longrightarrow>
   response.status r < 200 \<or> 599 < response.status r \<or> response.status r = 204
     \<or> response.status r = 205 \<or> response.status r = 304 \<Longrightarrow>
   POST rt env (Some payload)
     = (\<lparr>response.status = 500, json_body = Some (JObj [(''error'', JStr (unable rt))])\<rparr>,
        [forwarded rt env payload])"
  by (auto simp add: POST_def unable_response_def NextResponse_json_def Let_def)

lemma forwarded_shape:
  "url (forwarded rt env payload) = API_BASE_URL env @ suffix rt
   \<and> http_method (forwarded rt env payload) = ''POST''
   \<and> headers (forwarded rt env payload)
       = [(''Content-Type'', ''application/json''), (''Accept'', ''application/json'')]
   \<and> body (forwarded rt env payload) = payload
   \<and> cache (forwarded rt env payload) = Some ''no-store''"
  by (simp add: forwarded_def)

lemma base_url:
  "(API_BASE env_c = Some b \<and> b \<noteq> [] \<longrightarrow> API_BASE_URL env_c = b)
   \<and> (API_BASE env_d = None \<or> API_BASE env_d = Some []
      \<longrightarrow> API_BASE_URL env_d = ''https://cdn.tcioe.edu.np'')"
  by (auto simp: API_BASE_URL_def)

lemma routes:
  "suffix journal_route = ''/api/v1/public/journal-mod/articles/submit/''
   \<and> unable journal_route = ''Unable to submit journal article''
   \<and> suffix research_route = ''/api/v1/public/research-mod/research/submit/''
   \<and> unable research_route = ''Unable to submit research''"
  by (simp add: journal_route_def research_route_def)

text \<open>
  What a route handler does, case by case.  When the incoming body reads as JSON it sends
  that JSON value in one POST to the base URL (the configured one when there is one and it
  is not empty, the default otherwise) followed by the suffix of the route, with the two
  JSON headers and no caching; when the upstream answers and the response can be built
  from its status, the caller gets the upstream's status and its JSON body, or the empty
  object when the body is not JSON.  In every other case (the incoming body does not read
  as JSON, the upstream call throws, or building the response throws because the status
  admits no body) the throw is caught and the caller gets status 500 with the message of
  the route under \<open>error\<close>.
\<close>

theorem proxy_relays_or_answers_500:
  "(upstream env (forwarded rt env payload) = Resolved r
      \<and> 200 \<le> response.status r \<and> response.status r \<le> 599
      \<and> response.status r \<noteq> 204 \<and> response.status r \<noteq> 205 \<and> response.status r \<noteq> 304
     \<longrightarrow>
     POST rt env (Some payload)
       = (\<lparr>response.status = response.status r,
           json_body = Some (case json_body r of None \<Rightarrow> JObj [] | Some j \<Rightarrow> j)\<rparr>,
          [forwarded rt env payload]))
   \<and> (url (forwarded rt env payload) = API_BASE_URL env @ suffix rt
      \<and> http_method (forwarded rt env payload) = ''POST''
      \<and> headers (forwarded rt env payload)
          = [(''Content-Type'', ''application/json''), (''Accept'', ''application/json'')]
      \<and> body (forwarded rt env payload) = payload
      \<and> cache (forwarded rt env payload) = Some ''no-store'')
   \<and> POST rt env None
       = (\<lparr>response.status = 500, json_body = Some (JObj [(''error'', JStr (unable rt))])\<rparr>, [])
   \<and> (upstream env_t (forwarded rt env_t payload) = Rejected e
     \<longrightarrow>
     POST rt env_t (Some payload)
       = (\<lparr>response.status = 500, json_body = Some (JObj [(''error'', JStr (unable rt))])\<rparr>,
          [forwarded rt env_t payload]))
   \<and> (upstream env_n (forwarded rt env_n payload) = Resolved r_n
      \<and> (response.status r_n < 200 \<or> 599 < response.status r_n \<or> response.status r_n = 204
          \<or> response.status r_n = 205 \<or> response.status r_n = 304)
     \<longrightarrow>
     POST rt env_n (Some payload)
       = (\<lparr>response.status = 500, json_body = Some (JObj [(''error'', JStr (unable rt))])\<rparr>,
          [forwarded rt env_n payload]))
   \<and> (suffix journal_route = ''/api/v1/public/journal-mod/articles/submit/''
      \<and> unable journal_route = ''Unable to submit journal article''
      \<and> suffix research_route = ''/api/v1/public/research-mod/research/submit/''
      \<and> unable research_route = ''Unable to submit research'')
   \<and> (API_BASE env_c = Some b \<and> b \<noteq> [] \<longrightarrow> API_BASE_URL env_c = b)
   \<and> (API_BASE env_d = None \<or> API_BASE env_d = Some []
      \<longrightarrow> API_BASE_URL env_d = ''https://cdn.tcioe.edu.np'')"
  using POST_relay[of env rt payload r] forwarded_shape[of rt env payload]
    POST_unreadable[of rt env] POST_rejected[of env_t rt payload e]
    POST_unbuildable[of env_n rt payload r_n] routes base_url[of env_c b env_d]
  by blast

theorem proxy_relays_or_answers_500_witness:
  "POST journal_route (upstream_answering 400 (Some duplicate_title))
       (Some (body (journal_request tcioe_department journal_ready)))
     = (\<lparr>response.status = 400, json_body = Some duplicate_title\<rparr>,
        [forwarded journal_route (upstream_answering 400 (Some duplicate_title))
           (body (journal_request tcioe_department journal_ready))])
   \<and> url (forwarded journal_route (upstream_answering 400 (Some duplicate_title))
            (body (journal_request tcioe_department journal_ready)))
       = ''https://cdn.tcioe.edu.np/api/v1/public/journal-mod/articles/submit/''
   \<and> fst (POST journal_route upstream_down
             (Some (body (journal_request tcioe_department journal_ready))))
       = \<lparr>response.status = 500,
          json_body = Some (JObj [(''error'', JStr ''Unable to submit journal article'')])\<rparr>
   \<and> fst (POST journal_route (upstream_answering 204 None)
             (Some (body (journal_request tcioe_department journal_ready))))
       = \<lparr>response.status = 500,
          json_body = Some (JObj [(''error'', JStr ''Unable to submit journal article'')])\<rparr>
   \<and> API_BASE_URL upstream_down = ''http://localhost:8000''
   \<and> url (forwarded research_route upstream_down
            (body (research_request tcioe_department research_ready)))
       = ''http://localhost:8000/api/v1/public/research-mod/research/submit/''
   \<and> API_BASE_URL (upstream_answering 204 None) = ''https://cdn.tcioe.edu.np''"
  using proxy_relays_or_answers_500
          [where rt = journal_route and env = "upstream_answering 400 (Some duplicate_title)"
             and payload = "body (journal_request tcioe_department journal_ready)"
             and r = "\<lparr>response.status = 400, json_body = Some duplicate_title\<rparr>"
             and env_t = upstream_down and e = "ErrorObject ''fetch failed''"
             and env_n = "upstream_answering 204 None"
             and r_n = "\<lparr>response.status = 204, json_body = None\<rparr>"
             and env_c = upstream_down and b = "''http://localhost:8000''"
             and env_d = "upstream_answering 204 None"]
        proxy_relays_or_answers_500
          [where rt = research_route and env = upstream_down
             and payload = "body (research_request tcioe_department research_ready)",
           THEN conjunct2, THEN conjunct1, THEN conjunct1]
  by (simp add: upstream_answering_def upstream_down_def API_BASE_URL_def)

text \<open>
  C9.  The handler forwards the body to the configured base URL followed by the suffix of
  the route and converts every throw into the 500 response of the route, as claimed; but
  it does not relay every upstream status.  When the upstream answers 204 (no content, so
  no JSON body), the response cannot be built from that status: the throw is caught and
  the caller gets 500 with the message of the route, for a submission the upstream has
  accepted.
\<close>

theorem proxy_answers_500_to_upstream_204:
  "upstream upstream_no_content
     (forwarded journal_route upstream_no_content
        (body (journal_request tcioe_department journal_ready)))
     = Resolved \<lparr>response.status = 204, json_body = None\<rparr>
   \<and> POST journal_route upstream_no_content
         (Some (body (journal_request tcioe_department journal_ready)))
       = (\<lparr>response.status = 500,
           json_body = Some (JObj [(''error'', JStr ''Unable to submit journal article'')])\<rparr>,
          [forwarded journal_route upstream_no_content
             (body (journal_request tcioe_department journal_ready))])
   \<and> url (forwarded journal_route upstream_no_content
            (body (journal_request tcioe_department journal_ready)))
       = ''http://localhost:8000/api/v1/public/journal-mod/articles/submit/''
   \<and> body (forwarded journal_route upstream_no_content
             (body (journal_request tcioe_department journal_ready)))
       = body (journal_request tcioe_department journal_ready)
   \<and> POST research_route upstream_no_content
         (Some (body (research_request tcioe_department research_ready)))
       = (\<lparr>response.status = 500,
           json_body = Some (JObj [(''error'', JStr ''Unable to submit research'')])\<rparr>,
          [forwarded research_route upstream_no_content
             (body (research_request tcioe_department research_ready))])"
  by code_simp

section \<open>The section and the department\<close>

lemma department_in_body:
  "member (body (project_request d ps)) ''department'' = stringify_val (department_uuid d)"
  "member (body (research_request d rs)) ''department'' = stringify_val (department_uuid d)"
  "member (body (journal_request d js)) ''department'' = stringify_val (department_uuid d)"
  by (simp_all add: project_request_def project_payload_def research_request_def
        research_payload_def journal_request_def journal_payload_def post_def
        member_JSON_stringify Let_def stringify_property_def)

lemma section_none:
  "department = None \<or> (\<exists>d. department = Some d \<and> (uuid d = None \<or> uuid d = Some []))
   \<Longrightarrow> DepartmentSubmissionSection department = None"
  by (auto simp: DepartmentSubmissionSection_def)

lemma section_some:
  assumes "DepartmentSubmissionSection dep = Some fs" and "f \<in> set fs"
  shows "dep = Some (department_of f)
     \<and> (\<exists>u. u \<noteq> [] \<and> uuid (department_of f) = Some u
            \<and> member (body (request_of f ps rs js)) ''department'' = Some (JStr u))"
proof -
  obtain d u where d: "dep = Some d" and u: "uuid d = Some u" and ne: "u \<noteq> []"
    and fs: "fs = [ProjectSubmissionForm d, ResearchSubmissionForm d, JournalSubmissionForm d]"
    using assms(1)
    by (auto simp: DepartmentSubmissionSection_def split: option.splits if_splits)
  have f: "f = ProjectSubmissionForm d \<or> f = ResearchSubmissionForm d \<or> f = JournalSubmissionForm d"
    using assms(2) fs by auto
  have s: "stringify_val (department_uuid d) = Some (JStr u)"
    using u by (simp add: department_uuid_def stringify_val_def)
  show ?thesis
    using f d u ne s
    by (auto simp: department_of_def request_of_def department_in_body)
qed

text \<open>
  C10.  Without a department, or with a department whose \<open>uuid\<close> is missing or empty,
  the section renders nothing.  When it renders, every form it mounts is given the
  department of the section, whose \<open>uuid\<close> is not empty, and the body such a form sends
  carries that \<open>uuid\<close> under \<open>department\<close>.
\<close>

theorem forms_are_mounted_with_a_department:
  "(department = None \<or> (\<exists>d. department = Some d \<and> (uuid d = None \<or> uuid d = Some []))
      \<longrightarrow> DepartmentSubmissionSection department = None)
   \<and> (DepartmentSubmissionSection dep = Some fs \<and> f \<in> set fs
      \<longrightarrow> dep = Some (department_of f)
          \<and> (\<exists>u. u \<noteq> [] \<and> uuid (department_of f) = Some u
                 \<and> member (body (request_of f ps rs js)) ''department'' = Some (JStr u)))"
  using section_none[of department] section_some[of dep fs f ps rs js] by blast

theorem forms_are_mounted_with_a_department_witness:
  "DepartmentSubmissionSection None = None
   \<and> DepartmentSubmissionSection (Some tcioe_department)
       = Some [ProjectSubmissionForm tcioe_department, ResearchSubmissionForm tcioe_department,
               JournalSubmissionForm tcioe_department]
   \<and> (\<exists>u. u \<noteq> [] \<and> uuid tcioe_department = Some u
          \<and> member (body (journal_request tcioe_department journal_ready)) ''department''
              = Some (JStr u))"
proof -
  have s: "DepartmentSubmissionSection (Some tcioe_department)
       = Some [ProjectSubmissionForm tcioe_department, ResearchSubmissionForm tcioe_department,
               JournalSubmissionForm tcioe_department]"
    by (simp add: DepartmentSubmissionSection_def tcioe_department_def)
  have m: "JournalSubmissionForm tcioe_department
             \<in> set [ProjectSubmissionForm tcioe_department,
                     ResearchSubmissionForm tcioe_department,
                     JournalSubmissionForm tcioe_department]"
    by simp
  show ?thesis
    using s m
      forms_are_mounted_with_a_department
        [where department = None and dep = "Some tcioe_department"
           and fs = "[ProjectSubmissionForm tcioe_department,
                      ResearchSubmissionForm tcioe_department,
                      JournalSubmissionForm tcioe_department]"
           and f = "JournalSubmissionForm tcioe_department"
           and ps = project_ready and rs = research_ready and js = journal_ready]
    by (simp add: department_of_def request_of_def)
qed

end
